theory Spec2Isabelle
  imports Main "HOL-Library.Sublist"
begin

section \<open>JavaScript strings\<close>

text \<open>
  A JavaScript string is a sequence of UTF-16 code units. The model uses \<open>string\<close>:
  one \<open>char\<close> is one code unit, and the model covers the code units 0 to 255
  (ASCII and Latin-1). All tag markers, placeholders and the sentinel of the source
  are ASCII.
\<close>

definition is_ws :: "char \<Rightarrow> bool" where
  \<comment> \<open>WhiteSpace and LineTerminator code units below 256: TAB, LF, VT, FF, CR, SP, NBSP.\<close>
  "is_ws c = (let n = (of_char c :: nat) in (9 \<le> n \<and> n \<le> 13) \<or> n = 32 \<or> n = 160)"

definition trim :: "string \<Rightarrow> string" where
  \<comment> \<open>\<open>String.prototype.trim\<close>\<close>
  "trim s = rev (dropWhile is_ws (rev (dropWhile is_ws s)))"

definition toLowerCase_char :: "char \<Rightarrow> char" where
  \<comment> \<open>A-Z and the Latin-1 capitals (all of 0xC0-0xDE but the multiplication sign 0xD7)
      are mapped 32 code units up; every other code unit below 256 is unchanged.\<close>
  "toLowerCase_char c =
     (let n = (of_char c :: nat)
      in if (65 \<le> n \<and> n \<le> 90) \<or> (192 \<le> n \<and> n \<le> 222 \<and> n \<noteq> 215)
         then char_of (n + 32) else c)"

definition toLowerCase :: "string \<Rightarrow> string" where
  "toLowerCase s = map toLowerCase_char s"

definition canon :: "char \<Rightarrow> char" where
  \<comment> \<open>Case folding of a regular expression with flag \<open>i\<close> and without flag \<open>u\<close>, as far
      as it matters for an ASCII pattern: a code unit of 128 or more never folds to an
      ASCII one, so only a-z and A-Z are identified.\<close>
  "canon c = (let n = (of_char c :: nat) in if 97 \<le> n \<and> n \<le> 122 then char_of (n - 32) else c)"

fun starts_with :: "bool \<Rightarrow> string \<Rightarrow> string \<Rightarrow> bool" where
  \<comment> \<open>\<open>starts_with ci p s\<close>: the literal \<open>p\<close> matches at the start of \<open>s\<close>;
      \<open>ci\<close> is the flag \<open>i\<close>.\<close>
  "starts_with ci [] s = True"
| "starts_with ci (p # ps) [] = False"
| "starts_with ci (p # ps) (c # cs) =
     ((if ci then canon c = canon p else c = p) \<and> starts_with ci ps cs)"

fun find_first :: "bool \<Rightarrow> string \<Rightarrow> string \<Rightarrow> nat option" where
  \<comment> \<open>Index of the first match of a literal; \<open>None\<close> is \<open>indexOf\<close>'s -1.\<close>
  "find_first ci p [] = (if p = [] then Some 0 else None)"
| "find_first ci p (c # cs) =
     (if starts_with ci p (c # cs) then Some 0 else map_option Suc (find_first ci p cs))"

definition indexOf :: "string \<Rightarrow> string \<Rightarrow> nat option" where
  \<comment> \<open>\<open>s.indexOf(p)\<close>\<close>
  "indexOf p s = find_first False p s"

fun lastIndexOf :: "string \<Rightarrow> string \<Rightarrow> nat option" where
  \<comment> \<open>\<open>s.lastIndexOf(p)\<close>\<close>
  "lastIndexOf p [] = (if p = [] then Some 0 else None)"
| "lastIndexOf p (c # cs) =
     (case lastIndexOf p cs of
        Some j \<Rightarrow> Some (Suc j)
      | None \<Rightarrow> if starts_with False p (c # cs) then Some 0 else None)"

definition includes_str :: "string \<Rightarrow> string \<Rightarrow> bool" where
  \<comment> \<open>\<open>s.includes(p)\<close>\<close>
  "includes_str p s = (indexOf p s \<noteq> None)"

definition substring :: "nat \<Rightarrow> nat \<Rightarrow> string \<Rightarrow> string" where
  \<comment> \<open>\<open>s.substring(a, b)\<close>: the arguments are swapped when \<open>a > b\<close> and clamped to
      the length.\<close>
  "substring a b s = take (max a b - min a b) (drop (min a b) s)"

section \<open>History log (HistoryManager)\<close>

record item =
  id :: string
  timestamp :: string
  sourceLang :: string
  targetLang :: string
  sourceText :: string
  targetText :: string
  provider :: string
  model :: string

record history_manager =
  history :: "item list"
  stored :: "item list"

definition MAX_ITEMS :: nat where
  "MAX_ITEMS = 100"

definition save :: "bool \<Rightarrow> history_manager \<Rightarrow> history_manager" where
  \<comment> \<open>\<open>localStorage.setItem\<close>; \<open>writable\<close> is false when it throws (the error is
      caught and logged).\<close>
  "save writable hm = (if writable then hm\<lparr>stored := history hm\<rparr> else hm)"

definition add :: "bool \<Rightarrow> string \<Rightarrow> string \<Rightarrow> item \<Rightarrow> history_manager \<Rightarrow> item \<times> history_manager" where
  \<comment> \<open>\<open>new_id\<close> and \<open>now\<close> are what \<open>Date.now\<close>, \<open>Math.random\<close> and
      \<open>new Date().toISOString()\<close> give.\<close>
  "add writable new_id now entry hm =
     (let it = entry\<lparr>id := new_id, timestamp := now\<rparr>;
          h1 = it # history hm;
          h2 = (if length h1 > MAX_ITEMS then take MAX_ITEMS h1 else h1)
      in (it, save writable (hm\<lparr>history := h2\<rparr>)))"

definition search :: "string \<Rightarrow> history_manager \<Rightarrow> item list" where
  "search query hm =
     (if query = [] \<or> trim query = [] then history hm
      else let lowerQuery = toLowerCase query
           in filter (\<lambda>it. includes_str lowerQuery (toLowerCase (sourceText it)) \<or>
                          includes_str lowerQuery (toLowerCase (targetText it)))
                (history hm))"

definition contains_ignoring_case :: "string \<Rightarrow> string \<Rightarrow> bool" where
  \<comment> \<open>The claim's wording: \<open>s\<close> contains \<open>q\<close> case-insensitively, that is, some
      substring of \<open>s\<close> equals \<open>q\<close> up to the case of its letters.\<close>
  "contains_ignoring_case q s =
     (\<exists>a m b. s = a @ m @ b \<and> toLowerCase m = toLowerCase q)"

section \<open>Inline thinking markup (LlamaCppProvider.separateThinking)\<close>

definition open_tag :: "string \<Rightarrow> string" where
  "open_tag name = CHR ''<'' # name @ ''>''"

definition close_tag :: "string \<Rightarrow> string" where
  "close_tag name = ''</'' @ name @ ''>''"

definition add_char :: "char \<Rightarrow> string \<times> string list \<Rightarrow> string \<times> string list" where
  "add_char c r = (c # fst r, snd r)"

definition add_match :: "string \<Rightarrow> string \<times> string list \<Rightarrow> string \<times> string list" where
  "add_match m r = (fst r, m # snd r)"

function scan_pairs :: "string \<Rightarrow> string \<Rightarrow> string \<times> string list" where
  \<comment> \<open>The global, case-insensitive pattern \<open><name>[\s\S]*?</name>\<close>: the matches from
      left to right, each running from an opening tag to the first closing tag after it,
      with the search resumed behind the match. The result is the text with the matches
      removed, and the matches.\<close>
  "scan_pairs name [] = ([], [])"
| "scan_pairs name (c # cs) =
     (if starts_with True (open_tag name) (c # cs) then
        (case find_first True (close_tag name) (drop (length (open_tag name)) (c # cs)) of
           Some j \<Rightarrow>
             add_match (take (length (open_tag name) + j + length (close_tag name)) (c # cs))
               (scan_pairs name
                  (drop (length (open_tag name) + j + length (close_tag name)) (c # cs)))
         | None \<Rightarrow> add_char c (scan_pairs name cs))
      else add_char c (scan_pairs name cs))"
  by pat_completeness auto
termination
  by (relation "measure (\<lambda>(name, s). length s)") (auto simp: open_tag_def)

function strip_tags :: "bool \<Rightarrow> string \<Rightarrow> string \<Rightarrow> string" where
  \<comment> \<open>\<open>s.replace(/<\/?name>/g, '')\<close>, with flag \<open>i\<close> when \<open>ci\<close>.\<close>
  "strip_tags ci name [] = []"
| "strip_tags ci name (c # cs) =
     (if starts_with ci (open_tag name) (c # cs)
        then strip_tags ci name (drop (length (open_tag name)) (c # cs))
      else if starts_with ci (close_tag name) (c # cs)
        then strip_tags ci name (drop (length (close_tag name)) (c # cs))
      else c # strip_tags ci name cs)"
  by pat_completeness auto
termination
  by (relation "measure (\<lambda>(ci, name, s). length s)") (auto simp: open_tag_def close_tag_def)

text \<open>The object \<open>{ thinking, output }\<close> that \<open>separateThinking\<close> returns; the field
  \<open>output\<close> is named \<open>visible\<close> here.\<close>

record separated =
  thinking :: string
  visible :: string

definition think_inner :: "string \<Rightarrow> string" where
  \<comment> \<open>\<open>match[1]\<close> of \<open>/<think>([\s\S]*?)<\/think>/gi\<close>: the match without its two tags.\<close>
  "think_inner m = take (length m - 15) (drop 7 m)"

definition separateThinking :: "string \<Rightarrow> separated" where
  "separateThinking text =
     (let thinking0 = concat (map think_inner (snd (scan_pairs ''think'' text)));
          output0 = fst (scan_pairs ''think'' text);
          openIdx = lastIndexOf ''<think>'' output0;
          closeIdx = lastIndexOf ''</think>'' output0;
          inside = (case openIdx of
                      None \<Rightarrow> None
                    | Some i \<Rightarrow> (case closeIdx of
                                  None \<Rightarrow> Some i
                                | Some j \<Rightarrow> if j < i then Some i else None));
          thinking1 = (case inside of
                         Some i \<Rightarrow> thinking0 @ drop (i + 7) output0
                       | None \<Rightarrow> thinking0);
          output1 = (case inside of Some i \<Rightarrow> take i output0 | None \<Rightarrow> output0);
          output2 = trim (strip_tags True ''think'' output1);
          thinking2 = thinking1 @
            concat (map (strip_tags True ''thinking'') (snd (scan_pairs ''thinking'' output2)));
          output3 = fst (scan_pairs ''thinking'' output2);
          thinking3 = thinking2 @
            concat (map (strip_tags True ''reasoning'') (snd (scan_pairs ''reasoning'' output3)));
          output4 = fst (scan_pairs ''reasoning'' output3);
          output5 = trim (strip_tags True ''reasoning'' (strip_tags True ''thinking'' output4))
      in \<lparr>thinking = trim thinking3, visible = output5\<rparr>)"

definition filterThinkingBlocks :: "string \<Rightarrow> string" where
  "filterThinkingBlocks text = visible (separateThinking text)"

definition no_markers :: "string \<Rightarrow> bool" where
  \<comment> \<open>No tag marker of any kind, opening or closing, in any case, occurs in the text.\<close>
  "no_markers s =
     (find_first True ''<think>'' s = None \<and> find_first True ''</think>'' s = None \<and>
      find_first True ''<thinking>'' s = None \<and> find_first True ''</thinking>'' s = None \<and>
      find_first True ''<reasoning>'' s = None \<and> find_first True ''</reasoning>'' s = None)"

section \<open>Prompt construction (BaseProvider.buildPrompt)\<close>











section \<open>JSON values and property access\<close>

text \<open>
  What \<open>JSON.parse\<close> and \<open>response.json()\<close> produce. A number is kept as the text
  that \<open>Number.prototype.toString\<close> gives for it (zero, of either sign, is \<open>''0''\<close>).
  An object is its list of own properties, the effective value of a key first.
  \<open>JSON.parse\<close> itself is a parameter \<open>parse\<close> of the model: \<open>None\<close> is a
  thrown \<open>SyntaxError\<close>.
\<close>

datatype jsval =
    JUndefined
  | JNull
  | JBool bool
  | JNum string
  | JStr string
  | JArr "jsval list"
  | JObj "(string \<times> jsval) list"

fun truthy :: "jsval \<Rightarrow> bool" where
  "truthy JUndefined = False"
| "truthy JNull = False"
| "truthy (JBool b) = b"
| "truthy (JNum n) = (n \<noteq> ''0'')"
| "truthy (JStr s) = (s \<noteq> [])"
| "truthy (JArr xs) = True"
| "truthy (JObj kvs) = True"

fun to_string :: "jsval \<Rightarrow> string" and join_elems :: "jsval list \<Rightarrow> string" where
  \<comment> \<open>\<open>ToString\<close>, as string concatenation and \<open>new Error(v)\<close> apply it. An array is its
      elements joined by commas, with \<open>null\<close> and \<open>undefined\<close> elements left empty.\<close>
  "to_string JUndefined = ''undefined''"
| "to_string JNull = ''null''"
| "to_string (JBool b) = (if b then ''true'' else ''false'')"
| "to_string (JNum n) = n"
| "to_string (JStr s) = s"
| "to_string (JArr xs) = join_elems xs"
| "to_string (JObj kvs) = ''[object Object]''"
| "join_elems [] = []"
| "join_elems (x # xs) =
     (if x = JUndefined \<or> x = JNull then [] else to_string x)
       @ (if xs = [] then [] else CHR '','' # join_elems xs)"

datatype provider_id = OpenAI | Claude | Gemini | Ollama | LlamaCpp | OpenAICompatible

text \<open>
  The errors a call throws. \<open>MissingApiKey p\<close> is the error "the API key of \<open>p\<close> is not
  set" and \<open>MissingBaseUrl\<close> the error "the base URL of the OpenAI compatible API is not
  set"; \<open>BodyMessage m\<close> is \<open>new Error(m)\<close> for a message taken from the response body;
  \<open>HttpStatus p n\<close> is the generic error of provider \<open>p\<close> whose message ends in the
  status number \<open>n\<close>; \<open>TypeError\<close> and \<open>SyntaxError\<close> are raised by the language;
  \<open>Failure m\<close> is an error of the network layer (\<open>fetch\<close> or \<open>reader.read()\<close>
  rejecting).
\<close>

datatype error =
    MissingApiKey provider_id
  | MissingBaseUrl
  | BodyMessage string
  | HttpStatus provider_id nat
  | TypeError
  | SyntaxError
  | Failure string

definition prop_of :: "jsval \<Rightarrow> string \<Rightarrow> jsval" where
  \<comment> \<open>A property of a value that is neither \<open>null\<close> nor \<open>undefined\<close>, for the property
      names the source reads (none of them is a member of a built-in prototype).\<close>
  "prop_of v name =
     (case v of
        JObj kvs \<Rightarrow> (case map_of kvs name of Some x \<Rightarrow> x | None \<Rightarrow> JUndefined)
      | _ \<Rightarrow> JUndefined)"

definition nullish :: "jsval \<Rightarrow> bool" where
  "nullish v = (v = JUndefined \<or> v = JNull)"

definition get_prop :: "jsval \<Rightarrow> string \<Rightarrow> error + jsval" where
  \<comment> \<open>\<open>v.name\<close>\<close>
  "get_prop v name = (if nullish v then Inl TypeError else Inr (prop_of v name))"

definition opt_prop :: "jsval \<Rightarrow> string \<Rightarrow> jsval" where
  \<comment> \<open>\<open>v?.name\<close>\<close>
  "opt_prop v name = (if nullish v then JUndefined else prop_of v name)"

definition elem0 :: "jsval \<Rightarrow> jsval" where
  \<comment> \<open>Element 0 of a value that is neither \<open>null\<close> nor \<open>undefined\<close>.\<close>
  "elem0 v =
     (case v of
        JArr xs \<Rightarrow> (case xs of [] \<Rightarrow> JUndefined | x # _ \<Rightarrow> x)
      | JStr s \<Rightarrow> (case s of [] \<Rightarrow> JUndefined | c # _ \<Rightarrow> JStr [c])
      | JObj kvs \<Rightarrow> (case map_of kvs ''0'' of Some x \<Rightarrow> x | None \<Rightarrow> JUndefined)
      | _ \<Rightarrow> JUndefined)"

definition get_index0 :: "jsval \<Rightarrow> error + jsval" where
  \<comment> \<open>\<open>v[0]\<close>\<close>
  "get_index0 v = (if nullish v then Inl TypeError else Inr (elem0 v))"

definition opt_index0 :: "jsval \<Rightarrow> jsval" where
  \<comment> \<open>\<open>v?.[0]\<close>\<close>
  "opt_index0 v = (if nullish v then JUndefined else elem0 v)"

definition and_then :: "error + 'a \<Rightarrow> ('a \<Rightarrow> error + 'b) \<Rightarrow> error + 'b" where
  "and_then r f = (case r of Inl e \<Rightarrow> Inl e | Inr v \<Rightarrow> f v)"

definition trim_method :: "jsval \<Rightarrow> error + string" where
  \<comment> \<open>\<open>v.trim()\<close>: only a string has the method.\<close>
  "trim_method v = (case v of JStr s \<Rightarrow> Inr (trim s) | _ \<Rightarrow> Inl TypeError)"

section \<open>Requests, responses and callbacks\<close>

record config =
  apiKey :: "string option"
  baseUrl :: "string option"

definition unset :: "string option \<Rightarrow> bool" where
  \<comment> \<open>\<open>!value\<close> for a setting that is a string or absent.\<close>
  "unset v = (v = None \<or> v = Some [])"

text \<open>
  A response: its status, what \<open>response.json()\<close> resolves to (\<open>None\<close> when it
  rejects), the decoded chunks that \<open>reader.read()\<close> delivers, and the error with which
  a read after these chunks rejects, if the stream breaks rather than ends.
\<close>

record response =
  status :: nat
  json_body :: "jsval option"
  chunks :: "string list"
  read_failure :: "error option"

definition ok :: "response \<Rightarrow> bool" where
  \<comment> \<open>\<open>response.ok\<close>\<close>
  "ok r = (200 \<le> status r \<and> status r \<le> 299)"

datatype fetch_result = Rejected error | Resolved response

text \<open>Which callbacks the caller supplied.\<close>

record callbacks =
  onContent :: bool
  onReasoning :: bool
  onDone :: bool
  onError :: bool

text \<open>
  What a call does, in order: the request it sends and the callbacks it invokes. The
  callbacks are recorded, and return normally.
\<close>

datatype event =
    Fetch
  | OnContent string
  | OnReasoning string
  | OnDone string "string option"
  | OnError error

type_synonym outcome = "(error + string) \<times> event list"

definition emit :: "bool \<Rightarrow> event \<Rightarrow> event list" where
  \<comment> \<open>\<open>if (callbacks.f) callbacks.f(...)\<close>\<close>
  "emit supplied e = (if supplied then [e] else [])"

definition catch_onError :: "callbacks \<Rightarrow> outcome \<Rightarrow> outcome" where
  \<comment> \<open>\<open>try { ... } catch (error) { if (callbacks.onError) callbacks.onError(error); throw error; }\<close>\<close>
  "catch_onError cb r =
     (case fst r of
        Inl e \<Rightarrow> (Inl e, snd r @ emit (onError cb) (OnError e))
      | Inr v \<Rightarrow> r)"

definition error_of_body :: "provider_id \<Rightarrow> response \<Rightarrow> error" where
  \<comment> \<open>\<open>const error = await response.json().catch(() => ({}));
      throw new Error(error.error?.message || `... ${response.status}`)\<close>\<close>
  "error_of_body p r =
     (let error = (case json_body r of None \<Rightarrow> JObj [] | Some v \<Rightarrow> v)
      in case get_prop error ''error'' of
           Inl e \<Rightarrow> e
         | Inr inner \<Rightarrow>
             (let message = opt_prop inner ''message''
              in if truthy message then BodyMessage (to_string message)
                 else HttpStatus p (status r)))"

definition content_args :: "event list \<Rightarrow> string list" where
  "content_args evs = concat (map (\<lambda>e. case e of OnContent s \<Rightarrow> [s] | _ \<Rightarrow> []) evs)"

definition reasoning_args :: "event list \<Rightarrow> string list" where
  "reasoning_args evs = concat (map (\<lambda>e. case e of OnReasoning s \<Rightarrow> [s] | _ \<Rightarrow> []) evs)"

definition done_count :: "event list \<Rightarrow> nat" where
  "done_count evs = length (filter (\<lambda>e. case e of OnDone s t \<Rightarrow> True | _ \<Rightarrow> False) evs)"

definition error_count :: "event list \<Rightarrow> nat" where
  "error_count evs = length (filter (\<lambda>e. case e of OnError x \<Rightarrow> True | _ \<Rightarrow> False) evs)"

definition append_only :: "string list \<Rightarrow> bool" where
  \<comment> \<open>Each string extends every earlier one.\<close>
  "append_only xs = sorted_wrt prefix xs"

section \<open>Reading a streamed response\<close>

fun split_nl :: "string \<Rightarrow> string list" where
  \<comment> \<open>\<open>chunk.split('\n')\<close>\<close>
  "split_nl [] = [[]]"
| "split_nl (c # cs) =
     (if c = CHR 0x0A then [] # split_nl cs
      else (case split_nl cs of [] \<Rightarrow> [[c]] | l # ls \<Rightarrow> (c # l) # ls))"

fun run_lines :: "('s \<Rightarrow> string \<Rightarrow> 's \<times> event list) \<Rightarrow> 's \<Rightarrow> string list \<Rightarrow> 's \<times> event list" where
  \<comment> \<open>\<open>for (const line of lines) { ... }\<close>\<close>
  "run_lines step st [] = (st, [])"
| "run_lines step st (l # ls) =
     (let r1 = step st l; r2 = run_lines step (fst r1) ls in (fst r2, snd r1 @ snd r2))"

fun read_loop :: "('s \<Rightarrow> string \<Rightarrow> 's \<times> event list) \<Rightarrow> 's \<Rightarrow> string list \<Rightarrow> 's \<times> event list" where
  \<comment> \<open>\<open>while (true) { read a chunk; if (done) break; split it; run its lines }\<close>\<close>
  "read_loop step st [] = (st, [])"
| "read_loop step st (chunk # rest) =
     (let r1 = run_lines step st (split_nl chunk); r2 = read_loop step (fst r1) rest
      in (fst r2, snd r1 @ snd r2))"

section \<open>The providers\<close>

text \<open>
  A streaming call is \<open>translateStream parse cfg cb net\<close>: \<open>cfg\<close> is the provider's
  configuration, \<open>cb\<close> the callbacks supplied, \<open>net\<close> what \<open>fetch\<close> does when called.
  The result is the value returned or the error thrown, and the events in their order.
  The request body is not part of the model.
\<close>

subsection \<open>OpenAI\<close>

definition message_content :: "jsval \<Rightarrow> error + string" where
  \<comment> \<open>\<open>data.choices[0].message.content.trim()\<close>\<close>
  "message_content data =
     and_then (and_then (and_then (and_then (get_prop data ''choices'') get_index0)
       (\<lambda>v. get_prop v ''message'')) (\<lambda>v. get_prop v ''content'')) trim_method"

definition OpenAI_translate :: "config \<Rightarrow> fetch_result \<Rightarrow> outcome" where
  "OpenAI_translate cfg net =
     (if unset (apiKey cfg) then (Inl (MissingApiKey OpenAI), [])
      else case net of
             Rejected e \<Rightarrow> (Inl e, [Fetch])
           | Resolved r \<Rightarrow>
               if \<not> ok r then (Inl (error_of_body OpenAI r), [Fetch])
               else (case json_body r of
                       None \<Rightarrow> (Inl SyntaxError, [Fetch])
                     | Some data \<Rightarrow> (message_content data, [Fetch])))"

definition OpenAI_line :: "(string \<Rightarrow> jsval option) \<Rightarrow> callbacks \<Rightarrow> string \<Rightarrow> string \<Rightarrow> string \<times> event list" where
  \<comment> \<open>The body of the loop over the lines; the state is \<open>fullContent\<close>.\<close>
  "OpenAI_line parse cb fullContent line =
     (if starts_with False ''data: '' line then
        (let data = drop 6 line
         in if data = ''[DONE]'' then (fullContent, [])
            else (case parse data of
                    None \<Rightarrow> (fullContent, [])
                  | Some parsed \<Rightarrow>
                      (case get_prop parsed ''choices'' of
                         Inl e \<Rightarrow> (fullContent, [])
                       | Inr choices \<Rightarrow>
                           (let delta = opt_prop (opt_prop (opt_index0 choices) ''delta'') ''content''
                            in if truthy delta
                               then (fullContent @ to_string delta,
                                     emit (onContent cb) (OnContent (fullContent @ to_string delta)))
                               else (fullContent, [])))))
      else (fullContent, []))"

definition finish :: "callbacks \<Rightarrow> response \<Rightarrow> event list \<Rightarrow> string \<Rightarrow> string option \<Rightarrow> outcome" where
  \<comment> \<open>The end of the reading loop: a read that rejects throws; otherwise \<open>onDone\<close> is
      called and the final text returned.\<close>
  "finish cb r evs final reasoning =
     (case read_failure r of
        Some e \<Rightarrow> (Inl e, Fetch # evs)
      | None \<Rightarrow> (Inr final, Fetch # evs @ emit (onDone cb) (OnDone final reasoning)))"

definition OpenAI_translateStream :: "(string \<Rightarrow> jsval option) \<Rightarrow> config \<Rightarrow> callbacks \<Rightarrow> fetch_result \<Rightarrow> outcome" where
  "OpenAI_translateStream parse cfg cb net =
     (if unset (apiKey cfg) then (Inl (MissingApiKey OpenAI), [])
      else catch_onError cb
        (case net of
           Rejected e \<Rightarrow> (Inl e, [Fetch])
         | Resolved r \<Rightarrow>
             if \<not> ok r then (Inl (error_of_body OpenAI r), [Fetch])
             else (let run = read_loop (OpenAI_line parse cb) [] (chunks r)
                   in finish cb r (snd run) (trim (fst run)) None)))"

subsection \<open>Gemini\<close>

definition Gemini_candidate_text :: "jsval \<Rightarrow> error + string" where
  \<comment> \<open>\<open>data.candidates[0].content.parts[0].text.trim()\<close>\<close>
  "Gemini_candidate_text data =
     and_then (and_then (and_then (and_then (and_then (and_then (get_prop data ''candidates'')
       get_index0) (\<lambda>v. get_prop v ''content'')) (\<lambda>v. get_prop v ''parts'')) get_index0)
       (\<lambda>v. get_prop v ''text'')) trim_method"

definition Gemini_translate :: "config \<Rightarrow> fetch_result \<Rightarrow> outcome" where
  "Gemini_translate cfg net =
     (if unset (apiKey cfg) then (Inl (MissingApiKey Gemini), [])
      else case net of
             Rejected e \<Rightarrow> (Inl e, [Fetch])
           | Resolved r \<Rightarrow>
               if \<not> ok r then (Inl (error_of_body Gemini r), [Fetch])
               else (case json_body r of
                       None \<Rightarrow> (Inl SyntaxError, [Fetch])
                     | Some data \<Rightarrow> (Gemini_candidate_text data, [Fetch])))"

definition Gemini_line :: "(string \<Rightarrow> jsval option) \<Rightarrow> callbacks \<Rightarrow> string \<Rightarrow> string \<Rightarrow> string \<times> event list" where
  "Gemini_line parse cb fullContent line =
     (if starts_with False ''data: '' line then
        (let data = drop 6 line
         in if data = [] then (fullContent, [])
            else (case parse data of
                    None \<Rightarrow> (fullContent, [])
                  | Some parsed \<Rightarrow>
                      (case get_prop parsed ''candidates'' of
                         Inl e \<Rightarrow> (fullContent, [])
                       | Inr candidates \<Rightarrow>
                           (let text = opt_prop (opt_index0 (opt_prop (opt_prop
                                         (opt_index0 candidates) ''content'') ''parts'')) ''text''
                            in if truthy text
                               then (fullContent @ to_string text,
                                     emit (onContent cb) (OnContent (fullContent @ to_string text)))
                               else (fullContent, [])))))
      else (fullContent, []))"

definition Gemini_translateStream :: "(string \<Rightarrow> jsval option) \<Rightarrow> config \<Rightarrow> callbacks \<Rightarrow> fetch_result \<Rightarrow> outcome" where
  "Gemini_translateStream parse cfg cb net =
     (if unset (apiKey cfg) then (Inl (MissingApiKey Gemini), [])
      else catch_onError cb
        (case net of
           Rejected e \<Rightarrow> (Inl e, [Fetch])
         | Resolved r \<Rightarrow>
             if \<not> ok r then (Inl (error_of_body Gemini r), [Fetch])
             else (let run = read_loop (Gemini_line parse cb) [] (chunks r)
                   in finish cb r (snd run) (trim (fst run)) None)))"

subsection \<open>Ollama\<close>

definition Ollama_message_content :: "jsval \<Rightarrow> error + string" where
  \<comment> \<open>\<open>data.message.content.trim()\<close>\<close>
  "Ollama_message_content data =
     and_then (and_then (get_prop data ''message'') (\<lambda>v. get_prop v ''content'')) trim_method"

definition Ollama_translate :: "config \<Rightarrow> fetch_result \<Rightarrow> outcome" where
  "Ollama_translate cfg net =
     (case net of
        Rejected e \<Rightarrow> (Inl e, [Fetch])
      | Resolved r \<Rightarrow>
          if \<not> ok r then (Inl (HttpStatus Ollama (status r)), [Fetch])
          else (case json_body r of
                  None \<Rightarrow> (Inl SyntaxError, [Fetch])
                | Some data \<Rightarrow> (Ollama_message_content data, [Fetch])))"

definition Ollama_line :: "(string \<Rightarrow> jsval option) \<Rightarrow> callbacks \<Rightarrow> string \<Rightarrow> string \<Rightarrow> string \<times> event list" where
  "Ollama_line parse cb fullContent line =
     (if trim line = [] then (fullContent, [])
      else (case parse line of
              None \<Rightarrow> (fullContent, [])
            | Some parsed \<Rightarrow>
                (case get_prop parsed ''message'' of
                   Inl e \<Rightarrow> (fullContent, [])
                 | Inr message \<Rightarrow>
                     (let content = opt_prop message ''content''
                      in if truthy content
                         then (fullContent @ to_string content,
                               emit (onContent cb) (OnContent (fullContent @ to_string content)))
                         else (fullContent, [])))))"

definition Ollama_translateStream :: "(string \<Rightarrow> jsval option) \<Rightarrow> config \<Rightarrow> callbacks \<Rightarrow> fetch_result \<Rightarrow> outcome" where
  "Ollama_translateStream parse cfg cb net =
     catch_onError cb
       (case net of
          Rejected e \<Rightarrow> (Inl e, [Fetch])
        | Resolved r \<Rightarrow>
            if \<not> ok r then (Inl (HttpStatus Ollama (status r)), [Fetch])
            else (let run = read_loop (Ollama_line parse cb) [] (chunks r)
                  in finish cb r (snd run) (trim (fst run)) None))"

subsection \<open>llama.cpp\<close>

definition LlamaCpp_translate :: "config \<Rightarrow> fetch_result \<Rightarrow> outcome" where
  \<comment> \<open>\<open>rawContent = data.choices[0].message.content\<close>, then
      \<open>filterThinkingBlocks(rawContent).trim()\<close>; a \<open>rawContent\<close> that is not a string
      has no method \<open>replace\<close>.\<close>
  "LlamaCpp_translate cfg net =
     (case net of
        Rejected e \<Rightarrow> (Inl e, [Fetch])
      | Resolved r \<Rightarrow>
          if \<not> ok r then (Inl (HttpStatus LlamaCpp (status r)), [Fetch])
          else (case json_body r of
                  None \<Rightarrow> (Inl SyntaxError, [Fetch])
                | Some data \<Rightarrow>
                    (and_then (and_then (and_then (and_then (get_prop data ''choices'') get_index0)
                       (\<lambda>v. get_prop v ''message'')) (\<lambda>v. get_prop v ''content''))
                       (\<lambda>rawContent. case rawContent of
                                        JStr s \<Rightarrow> Inr (trim (filterThinkingBlocks s))
                                      | _ \<Rightarrow> Inl TypeError),
                     [Fetch])))"

definition think_split :: "nat \<Rightarrow> string \<Rightarrow> string \<times> string" where
  \<comment> \<open>For a text with \<open><think>\<close> at index \<open>thinkStart\<close>: the pair \<open>(thinking, output)\<close>
      before the tags are stripped.\<close>
  "think_split thinkStart fullText =
     (case indexOf ''</think>'' fullText of
        Some thinkEnd \<Rightarrow>
          (substring (thinkStart + 7) thinkEnd fullText,
           substring 0 thinkStart fullText @ drop (thinkEnd + 8) fullText)
      | None \<Rightarrow> (drop (thinkStart + 7) fullText, substring 0 thinkStart fullText))"

definition LlamaCpp_content :: "callbacks \<Rightarrow> string \<times> string \<Rightarrow> event list" where
  \<comment> \<open>The callbacks after \<open>fullText += delta.content\<close>; the state is
      \<open>(fullText, fullReasoning)\<close>.\<close>
  "LlamaCpp_content cb st =
     (case indexOf ''<think>'' (fst st) of
        Some thinkStart \<Rightarrow>
          (let thinking = trim (strip_tags False ''think'' (fst (think_split thinkStart (fst st))));
               output = trim (strip_tags False ''think'' (snd (think_split thinkStart (fst st))))
           in (if thinking \<noteq> [] then emit (onReasoning cb) (OnReasoning thinking) else [])
              @ emit (onContent cb) (OnContent output))
      | None \<Rightarrow> emit (onContent cb) (OnContent (fst st)))"

definition LlamaCpp_line :: "(string \<Rightarrow> jsval option) \<Rightarrow> callbacks \<Rightarrow> string \<times> string \<Rightarrow> string \<Rightarrow> (string \<times> string) \<times> event list" where
  "LlamaCpp_line parse cb st line =
     (if starts_with False ''data: '' line then
        (let data = drop 6 line
         in if data = ''[DONE]'' then (st, [])
            else (case parse data of
                    None \<Rightarrow> (st, [])
                  | Some parsed \<Rightarrow>
                      (case get_prop parsed ''choices'' of
                         Inl e \<Rightarrow> (st, [])
                       | Inr choices \<Rightarrow>
                           (let delta = opt_prop (opt_index0 choices) ''delta'';
                                reasoning_content = opt_prop delta ''reasoning_content'';
                                content = opt_prop delta ''content'';
                                st1 = (if truthy reasoning_content
                                       then (fst st, snd st @ to_string reasoning_content) else st);
                                ev1 = (if truthy reasoning_content
                                       then emit (onReasoning cb) (OnReasoning (snd st1)) else []);
                                st2 = (if truthy content
                                       then (fst st1 @ to_string content, snd st1) else st1);
                                ev2 = (if truthy content then LlamaCpp_content cb st2 else [])
                            in (st2, ev1 @ ev2)))))
      else (st, []))"

definition LlamaCpp_final :: "string \<times> string \<Rightarrow> string \<times> string" where
  \<comment> \<open>The final cleanup: \<open>(finalOutput, finalThinking)\<close>.\<close>
  "LlamaCpp_final st =
     (let split = (case indexOf ''<think>'' (fst st) of
                     Some thinkStart \<Rightarrow> think_split thinkStart (fst st)
                   | None \<Rightarrow> (snd st, fst st))
      in (trim (strip_tags False ''think'' (snd split)),
          trim (strip_tags False ''think'' (fst split))))"

definition LlamaCpp_translateStream :: "(string \<Rightarrow> jsval option) \<Rightarrow> config \<Rightarrow> callbacks \<Rightarrow> fetch_result \<Rightarrow> outcome" where
  "LlamaCpp_translateStream parse cfg cb net =
     catch_onError cb
       (case net of
          Rejected e \<Rightarrow> (Inl e, [Fetch])
        | Resolved r \<Rightarrow>
            if \<not> ok r then (Inl (HttpStatus LlamaCpp (status r)), [Fetch])
            else (let run = read_loop (LlamaCpp_line parse cb) ([], []) (chunks r)
                  in finish cb r (snd run) (fst (LlamaCpp_final (fst run)))
                       (Some (snd (LlamaCpp_final (fst run))))))"

definition LlamaCpp_fullText :: "(string \<Rightarrow> jsval option) \<Rightarrow> callbacks \<Rightarrow> response \<Rightarrow> string" where
  \<comment> \<open>The text accumulated from the \<open>content\<close> deltas of a whole stream.\<close>
  "LlamaCpp_fullText parse cb r = fst (fst (read_loop (LlamaCpp_line parse cb) ([], []) (chunks r)))"

subsection \<open>OpenAI compatible\<close>

definition OpenAICompatible_translate :: "config \<Rightarrow> fetch_result \<Rightarrow> outcome" where
  "OpenAICompatible_translate cfg net =
     (if unset (baseUrl cfg) then (Inl MissingBaseUrl, [])
      else case net of
             Rejected e \<Rightarrow> (Inl e, [Fetch])
           | Resolved r \<Rightarrow>
               if \<not> ok r then (Inl (error_of_body OpenAICompatible r), [Fetch])
               else (case json_body r of
                       None \<Rightarrow> (Inl SyntaxError, [Fetch])
                     | Some data \<Rightarrow> (message_content data, [Fetch])))"

definition OpenAICompatible_translateStream :: "(string \<Rightarrow> jsval option) \<Rightarrow> config \<Rightarrow> callbacks \<Rightarrow> fetch_result \<Rightarrow> outcome" where
  \<comment> \<open>The loop over the lines has the same text as OpenAI's.\<close>
  "OpenAICompatible_translateStream parse cfg cb net =
     (if unset (baseUrl cfg) then (Inl MissingBaseUrl, [])
      else catch_onError cb
        (case net of
           Rejected e \<Rightarrow> (Inl e, [Fetch])
         | Resolved r \<Rightarrow>
             if \<not> ok r then (Inl (error_of_body OpenAICompatible r), [Fetch])
             else (let run = read_loop (OpenAI_line parse cb) [] (chunks r)
                   in finish cb r (snd run) (trim (fst run)) None)))"

subsection \<open>Claude\<close>

text \<open>In the source Claude comes second, after OpenAI.\<close>

definition Claude_content_text :: "jsval \<Rightarrow> error + string" where
  \<comment> \<open>\<open>data.content[0].text.trim()\<close>\<close>
  "Claude_content_text data =
     and_then (and_then (and_then (get_prop data ''content'') get_index0)
       (\<lambda>v. get_prop v ''text'')) trim_method"

definition Claude_translate :: "config \<Rightarrow> fetch_result \<Rightarrow> outcome" where
  "Claude_translate cfg net =
     (if unset (apiKey cfg) then (Inl (MissingApiKey Claude), [])
      else case net of
             Rejected e \<Rightarrow> (Inl e, [Fetch])
           | Resolved r \<Rightarrow>
               if \<not> ok r then (Inl (error_of_body Claude r), [Fetch])
               else (case json_body r of
                       None \<Rightarrow> (Inl SyntaxError, [Fetch])
                     | Some data \<Rightarrow> (Claude_content_text data, [Fetch])))"

record claude_state =
  fullContent :: string
  fullThinking :: string
  currentBlockType :: jsval

definition Claude_delta :: "callbacks \<Rightarrow> jsval \<Rightarrow> claude_state \<Rightarrow> claude_state \<times> event list" where
  \<comment> \<open>The two tests on \<open>parsed.delta\<close> of a \<open>content_block_delta\<close> event.\<close>
  "Claude_delta cb delta st =
     (let st1 = (if opt_prop delta ''type'' = JStr ''thinking_delta'' \<and> truthy (prop_of delta ''thinking'')
                 then st\<lparr>fullThinking := fullThinking st @ to_string (prop_of delta ''thinking'')\<rparr>
                 else st);
          ev1 = (if opt_prop delta ''type'' = JStr ''thinking_delta'' \<and> truthy (prop_of delta ''thinking'')
                 then emit (onReasoning cb) (OnReasoning (fullThinking st1)) else []);
          st2 = (if opt_prop delta ''type'' = JStr ''text_delta'' \<and> truthy (prop_of delta ''text'')
                 then st1\<lparr>fullContent := fullContent st1 @ to_string (prop_of delta ''text'')\<rparr>
                 else st1);
          ev2 = (if opt_prop delta ''type'' = JStr ''text_delta'' \<and> truthy (prop_of delta ''text'')
                 then emit (onContent cb) (OnContent (fullContent st2)) else [])
      in (st2, ev1 @ ev2))"

definition Claude_line :: "(string \<Rightarrow> jsval option) \<Rightarrow> callbacks \<Rightarrow> claude_state \<Rightarrow> string \<Rightarrow> claude_state \<times> event list" where
  "Claude_line parse cb st line =
     (if starts_with False ''data: '' line then
        (let data = drop 6 line
         in if data = [] \<or> data = ''[DONE]'' then (st, [])
            else (case parse data of
                    None \<Rightarrow> (st, [])
                  | Some parsed \<Rightarrow>
                      (case get_prop parsed ''type'' of
                         Inl e \<Rightarrow> (st, [])
                       | Inr ty \<Rightarrow>
                           (let st1 = (if ty = JStr ''content_block_start''
                                       then st\<lparr>currentBlockType :=
                                              opt_prop (prop_of parsed ''content_block'') ''type''\<rparr>
                                       else st)
                            in if ty = JStr ''content_block_delta''
                               then Claude_delta cb (prop_of parsed ''delta'') st1
                               else (st1, [])))))
      else (st, []))"

definition Claude_translateStream :: "(string \<Rightarrow> jsval option) \<Rightarrow> config \<Rightarrow> callbacks \<Rightarrow> fetch_result \<Rightarrow> outcome" where
  "Claude_translateStream parse cfg cb net =
     (if unset (apiKey cfg) then (Inl (MissingApiKey Claude), [])
      else catch_onError cb
        (case net of
           Rejected e \<Rightarrow> (Inl e, [Fetch])
         | Resolved r \<Rightarrow>
             if \<not> ok r then (Inl (error_of_body Claude r), [Fetch])
             else (let run = read_loop (Claude_line parse cb)
                               \<lparr>fullContent = [], fullThinking = [], currentBlockType = JNull\<rparr>
                               (chunks r)
                   in finish cb r (snd run) (trim (fullContent (fst run)))
                        (Some (fullThinking (fst run))))))"

subsection \<open>ProviderFactory.create\<close>

definition translate :: "provider_id \<Rightarrow> config \<Rightarrow> fetch_result \<Rightarrow> outcome" where
  \<comment> \<open>\<open>ProviderFactory.create(providerType, config).translate(...)\<close>\<close>
  "translate p cfg net =
     (case p of
        OpenAI \<Rightarrow> OpenAI_translate cfg net
      | Claude \<Rightarrow> Claude_translate cfg net
      | Gemini \<Rightarrow> Gemini_translate cfg net
      | Ollama \<Rightarrow> Ollama_translate cfg net
      | LlamaCpp \<Rightarrow> LlamaCpp_translate cfg net
      | OpenAICompatible \<Rightarrow> OpenAICompatible_translate cfg net)"

definition translateStream :: "provider_id \<Rightarrow> (string \<Rightarrow> jsval option) \<Rightarrow> config \<Rightarrow> callbacks \<Rightarrow> fetch_result \<Rightarrow> outcome" where
  \<comment> \<open>\<open>ProviderFactory.create(providerType, config).translateStream(...)\<close>\<close>
  "translateStream p parse cfg cb net =
     (case p of
        OpenAI \<Rightarrow> OpenAI_translateStream parse cfg cb net
      | Claude \<Rightarrow> Claude_translateStream parse cfg cb net
      | Gemini \<Rightarrow> Gemini_translateStream parse cfg cb net
      | Ollama \<Rightarrow> Ollama_translateStream parse cfg cb net
      | LlamaCpp \<Rightarrow> LlamaCpp_translateStream parse cfg cb net
      | OpenAICompatible \<Rightarrow> OpenAICompatible_translateStream parse cfg cb net)"

definition needs_key :: "provider_id \<Rightarrow> bool" where
  \<comment> \<open>The providers whose calls start with the test \<open>if (!apiKey) throw ...\<close>.\<close>
  "needs_key p = (p = OpenAI \<or> p = Claude \<or> p = Gemini)"

definition reads_error_body :: "provider_id \<Rightarrow> bool" where
  \<comment> \<open>The providers that read the body of a response that is not ok.\<close>
  "reads_error_body p = (p = OpenAI \<or> p = Claude \<or> p = Gemini \<or> p = OpenAICompatible)"

definition misconfigured :: "provider_id \<Rightarrow> config \<Rightarrow> bool" where
  \<comment> \<open>The configuration test before the \<open>try\<close> block fails: the API key is missing, or
      the base URL of the OpenAI compatible provider.\<close>
  "misconfigured p cfg =
     (if needs_key p then unset (apiKey cfg)
      else if p = OpenAICompatible then unset (baseUrl cfg)
      else False)"

definition is_delta :: "event \<Rightarrow> bool" where
  "is_delta e = (case e of OnContent s \<Rightarrow> True | OnReasoning s \<Rightarrow> True | _ \<Rightarrow> False)"

section \<open>Example inputs\<close>

definition example_entry :: item where
  "example_entry =
     \<lparr>id = [], timestamp = [], sourceLang = ''en'', targetLang = ''ko'',
      sourceText = ''Hello World'', targetText = ''annyeong'',
      provider = ''openai'', model = ''gpt-4o''\<rparr>"

definition all_callbacks :: callbacks where
  "all_callbacks = \<lparr>onContent = True, onReasoning = True, onDone = True, onError = True\<rparr>"

definition content_frame :: "string \<Rightarrow> jsval" where
  \<comment> \<open>The value of the JSON text \<open>{"choices":[{"delta":{"content":s}}]}\<close>.\<close>
  "content_frame s = JObj [(''choices'', JArr [JObj [(''delta'', JObj [(''content'', JStr s)])]])]"

definition reasoning_frame :: "string \<Rightarrow> jsval" where
  \<comment> \<open>The value of the JSON text \<open>{"choices":[{"delta":{"reasoning_content":s}}]}\<close>.\<close>
  "reasoning_frame s =
     JObj [(''choices'', JArr [JObj [(''delta'', JObj [(''reasoning_content'', JStr s)])]])]"

definition example_parse :: "string \<Rightarrow> jsval option" where
  \<comment> \<open>\<open>JSON.parse\<close> on the payloads of the examples below.\<close>
  \<open>example_parse =
     map_of
       [(''{"choices":[{"delta":{"content":"Hello "}}]}'', content_frame ''Hello ''),
        (''{"choices":[{"delta":{"content":"<think>"}}]}'', content_frame ''<think>''),
        (''{"choices":[{"delta":{"content":"x"}}]}'', content_frame ''x''),
        (''{"choices":[{"delta":{"reasoning_content":"abc"}}]}'', reasoning_frame ''abc''),
        (''{"choices":[{"delta":{"content":"Hello <thinking>reasoning so far"}}]}'',
         content_frame ''Hello <thinking>reasoning so far''),
        (''{"choices":[{"delta":{"content":"Hello <think>reasoning so far"}}]}'',
         content_frame ''Hello <think>reasoning so far'')]\<close>

definition bad_key_body :: jsval where
  \<comment> \<open>The value of the JSON text \<open>{"error":{"message":"bad key"}}\<close>.\<close>
  "bad_key_body = JObj [(''error'', JObj [(''message'', JStr ''bad key'')])]"

definition example_config :: config where
  "example_config = \<lparr>apiKey = Some ''sk-1'', baseUrl = Some ''http://localhost:8080''\<rparr>"

definition no_key_config :: config where
  "no_key_config = \<lparr>apiKey = None, baseUrl = None\<rparr>"

definition example_stream :: "string list \<Rightarrow> response" where
  \<comment> \<open>A response with status 200 whose stream delivers the given chunks and ends.\<close>
  "example_stream cs = \<lparr>status = 200, json_body = None, chunks = cs, read_failure = None\<rparr>"

definition example_failure :: "nat \<Rightarrow> jsval option \<Rightarrow> response" where
  \<comment> \<open>A response with the given status and JSON body, and no stream.\<close>
  "example_failure n body = \<lparr>status = n, json_body = body, chunks = [], read_failure = None\<rparr>"

section \<open>Facts about literal search\<close>

lemma starts_with_iff:
  "starts_with False p s \<longleftrightarrow> prefix p s"
  by (induction "False" p s rule: starts_with.induct) auto

lemma find_first_None_iff:
  "find_first False p s = None \<longleftrightarrow> \<not> (\<exists>a b. s = a @ p @ b)"
proof (induction s)
  case Nil
  then show ?case by auto
next
  case (Cons c cs)
  show ?case
  proof (cases "starts_with False p (c # cs)")
    case True
    then obtain r where "c # cs = p @ r"
      by (auto simp: starts_with_iff prefix_def)
    then have "c # cs = [] @ p @ r" by simp
    with True show ?thesis by (metis find_first.simps(2) option.distinct(1))
  next
    case False
    have "(\<exists>a b. c # cs = a @ p @ b) \<longleftrightarrow> (\<exists>a b. cs = a @ p @ b)"
    proof
      assume "\<exists>a b. c # cs = a @ p @ b"
      then obtain a b where ab: "c # cs = a @ p @ b" by blast
      show "\<exists>a b. cs = a @ p @ b"
      proof (cases a)
        case Nil
        with ab have "prefix p (c # cs)" by (simp add: prefix_def)
        with False show ?thesis by (simp add: starts_with_iff)
      next
        case (Cons x a')
        with ab show ?thesis by auto
      qed
    next
      assume "\<exists>a b. cs = a @ p @ b"
      then obtain a b where "cs = a @ p @ b" by blast
      then have "c # cs = (c # a) @ p @ b" by simp
      then show "\<exists>a b. c # cs = a @ p @ b" by blast
    qed
    with False Cons show ?thesis by simp
  qed
qed

lemma includes_iff:
  "includes_str p s \<longleftrightarrow> (\<exists>a b. s = a @ p @ b)"
  using find_first_None_iff [of p s] by (simp add: includes_str_def indexOf_def)

lemma includes_lower_iff:
  "includes_str (toLowerCase q) (toLowerCase s) \<longleftrightarrow> contains_ignoring_case q s"
proof
  assume "includes_str (toLowerCase q) (toLowerCase s)"
  then obtain a b where ab: "toLowerCase s = a @ toLowerCase q @ b"
    by (auto simp: includes_iff)
  let ?m = "take (length q) (drop (length a) s)"
  have "s = take (length a) s @ ?m @ drop (length q) (drop (length a) s)"
    by (simp only: append_take_drop_id)
  moreover have "toLowerCase ?m = toLowerCase q"
    using ab by (simp add: toLowerCase_def take_map [symmetric] drop_map [symmetric])
  ultimately show "contains_ignoring_case q s"
    unfolding contains_ignoring_case_def by blast
next
  assume "contains_ignoring_case q s"
  then obtain a m b where "s = a @ m @ b" "toLowerCase m = toLowerCase q"
    unfolding contains_ignoring_case_def by blast
  then have "toLowerCase s = toLowerCase a @ toLowerCase q @ toLowerCase b"
    by (simp add: toLowerCase_def)
  then show "includes_str (toLowerCase q) (toLowerCase s)"
    by (auto simp: includes_iff)
qed

section \<open>Claims about the history log\<close>

text \<open>
  C9. The history log keeps the most recent \<open>MAX_ITEMS = 100\<close> records: after every
  \<open>add\<close> the stored list has at most 100 records, the new record is its first element
  (the list is newest first), the records kept besides it are the newest 99 of the old
  list in their old order (so anything removed is older than everything kept), and when
  the list already held exactly 100 records the one removed is its last, oldest record.
\<close>

theorem add_bounded_oldest_evicted:
  "MAX_ITEMS = 100 \<and>
   length (history (snd (add w new_id now entry hm))) \<le> MAX_ITEMS \<and>
   history (snd (add w new_id now entry hm)) =
     fst (add w new_id now entry hm) # take (MAX_ITEMS - 1) (history hm) \<and>
   fst (add w new_id now entry hm) = entry\<lparr>id := new_id, timestamp := now\<rparr> \<and>
   (length (history hm) = MAX_ITEMS \<longrightarrow>
      history (snd (add w new_id now entry hm)) =
        fst (add w new_id now entry hm) # butlast (history hm))"
proof -
  have "length (history hm) = 100 \<Longrightarrow> take 99 (history hm) = butlast (history hm)"
    by (simp add: butlast_conv_take)
  then show ?thesis
    by (cases "history hm") (auto simp: add_def save_def MAX_ITEMS_def Let_def)
qed

theorem add_bounded_oldest_evicted_witness:
  "length (history \<lparr>history = replicate 100 example_entry, stored = []\<rparr>) = MAX_ITEMS \<and>
   history (snd (add True ''k1'' ''t1'' example_entry
                  \<lparr>history = replicate 100 example_entry, stored = []\<rparr>)) =
     fst (add True ''k1'' ''t1'' example_entry
            \<lparr>history = replicate 100 example_entry, stored = []\<rparr>)
       # butlast (replicate 100 example_entry)"
  using add_bounded_oldest_evicted
    [where hm = "\<lparr>history = replicate 100 example_entry, stored = []\<rparr>"
       and w = True and new_id = "''k1''" and now = "''t1''" and entry = example_entry]
  by (simp add: MAX_ITEMS_def butlast_conv_take)

text \<open>
  C10. A query that is empty or only whitespace returns the whole stored history; any
  other query returns exactly the stored records whose source text or target text
  contains the query case-insensitively, in their stored (newest first) order.
\<close>

theorem search_spec:
  "(trim query = [] \<longrightarrow> search query hm = history hm) \<and>
   (trim query \<noteq> [] \<longrightarrow>
      search query hm =
        filter (\<lambda>it. contains_ignoring_case query (sourceText it) \<or>
                     contains_ignoring_case query (targetText it)) (history hm))"
proof -
  have "trim [] = []" by (simp add: trim_def)
  then show ?thesis
    by (auto simp: search_def Let_def includes_lower_iff)
qed

theorem search_spec_witness:
  "trim ''  '' = [] \<and>
   search ''  '' \<lparr>history = [example_entry], stored = []\<rparr> = [example_entry] \<and>
   trim ''WORLD'' \<noteq> [] \<and>
   search ''WORLD'' \<lparr>history = [example_entry], stored = []\<rparr> =
     filter (\<lambda>it. contains_ignoring_case ''WORLD'' (sourceText it) \<or>
                  contains_ignoring_case ''WORLD'' (targetText it)) [example_entry]"
  using search_spec [of "''  ''" "\<lparr>history = [example_entry], stored = []\<rparr>"]
        search_spec [of "''WORLD''" "\<lparr>history = [example_entry], stored = []\<rparr>"]
  by (simp add: trim_def is_ws_def)

section \<open>Facts about the reading loop\<close>

lemma run_lines_all:
  assumes "\<And>st l. list_all P (snd (step st l))"
  shows "list_all P (snd (run_lines step st ls))"
  using assms by (induction ls arbitrary: st) (simp_all add: Let_def)

lemma read_loop_all:
  assumes "\<And>st l. list_all P (snd (step st l))"
  shows "list_all P (snd (read_loop step st cs))"
  using run_lines_all [of P step, OF assms]
  by (induction cs arbitrary: st) (simp_all add: Let_def)

lemma emit_delta:
  "list_all is_delta (emit b (OnContent s))" "list_all is_delta (emit b (OnReasoning s))"
  by (simp_all add: emit_def is_delta_def)

lemma OpenAI_line_delta: "list_all is_delta (snd (OpenAI_line parse cb st l))"
  by (simp add: OpenAI_line_def Let_def emit_delta split: option.splits sum.splits)

lemma Gemini_line_delta: "list_all is_delta (snd (Gemini_line parse cb st l))"
  by (simp add: Gemini_line_def Let_def emit_delta split: option.splits sum.splits)

lemma Ollama_line_delta: "list_all is_delta (snd (Ollama_line parse cb st l))"
  by (simp add: Ollama_line_def Let_def emit_delta split: option.splits sum.splits)

lemma Claude_line_delta: "list_all is_delta (snd (Claude_line parse cb st l))"
  by (simp add: Claude_line_def Claude_delta_def Let_def emit_delta split: option.splits sum.splits)

lemma LlamaCpp_line_delta: "list_all is_delta (snd (LlamaCpp_line parse cb st l))"
  by (simp add: LlamaCpp_line_def LlamaCpp_content_def Let_def emit_delta
      split: option.splits sum.splits)

lemma delta_counts:
  assumes "list_all is_delta evs"
  shows "error_count evs = 0" "done_count evs = 0"
  using assms
  by (induction evs) (auto simp: error_count_def done_count_def is_delta_def split: event.splits)

lemma counts_append:
  "error_count (a @ b) = error_count a + error_count b"
  "done_count (a @ b) = done_count a + done_count b"
  by (simp_all add: error_count_def done_count_def)

lemma counts_Cons:
  "error_count (Fetch # a) = error_count a" "done_count (Fetch # a) = done_count a"
  "error_count [] = 0" "done_count [] = 0"
  "error_count [OnError e] = 1" "done_count [OnError e] = 0"
  "error_count [OnDone s t] = 0" "done_count [OnDone s t] = 1"
  by (simp_all add: error_count_def done_count_def)

lemma try_block:
  fixes evs :: "response \<Rightarrow> event list" and cb net f v t
  assumes d: "\<And>r. list_all is_delta (evs r)"
  defines "out \<equiv> catch_onError cb
     (case net of
        Rejected x \<Rightarrow> (Inl x, [Fetch])
      | Resolved r \<Rightarrow> if \<not> ok r then (Inl (f r), [Fetch]) else finish cb r (evs r) (v r) (t r))"
  shows "fst out = Inl e \<Longrightarrow> onError cb \<Longrightarrow>
           error_count (snd out) = 1 \<and> last (snd out) = OnError e \<and> done_count (snd out) = 0"
    and "fst out = Inr s \<Longrightarrow> error_count (snd out) = 0"
    and "fst out = Inr s \<Longrightarrow> onDone cb \<Longrightarrow>
           done_count (snd out) = 1 \<and> (\<exists>t. last (snd out) = OnDone s t)"
    and "fst out = Inr s \<Longrightarrow> \<not> onDone cb \<Longrightarrow> done_count (snd out) = 0"
    and "fst out = Inl e \<Longrightarrow> done_count (snd out) = 0"
  unfolding out_def
  by (auto simp: catch_onError_def finish_def emit_def counts_append counts_Cons
      delta_counts [OF d] split: fetch_result.splits option.splits if_splits)


lemmas line_deltas =
  read_loop_all [of is_delta, OF OpenAI_line_delta]
  read_loop_all [of is_delta, OF Gemini_line_delta]
  read_loop_all [of is_delta, OF Ollama_line_delta]
  read_loop_all [of is_delta, OF Claude_line_delta]
  read_loop_all [of is_delta, OF LlamaCpp_line_delta]

lemma translateStream_unfold:
  "translateStream p parse cfg cb net =
     (if misconfigured p cfg
      then (Inl (if p = OpenAICompatible then MissingBaseUrl else MissingApiKey p), [])
      else catch_onError cb
        (case net of
           Rejected x \<Rightarrow> (Inl x, [Fetch])
         | Resolved r \<Rightarrow>
             if \<not> ok r
             then (Inl (if reads_error_body p then error_of_body p r else HttpStatus p (status r)),
                   [Fetch])
             else finish cb r
                    (case p of
                       OpenAI \<Rightarrow> snd (read_loop (OpenAI_line parse cb) [] (chunks r))
                     | Claude \<Rightarrow> snd (read_loop (Claude_line parse cb)
                         \<lparr>fullContent = [], fullThinking = [], currentBlockType = JNull\<rparr> (chunks r))
                     | Gemini \<Rightarrow> snd (read_loop (Gemini_line parse cb) [] (chunks r))
                     | Ollama \<Rightarrow> snd (read_loop (Ollama_line parse cb) [] (chunks r))
                     | LlamaCpp \<Rightarrow> snd (read_loop (LlamaCpp_line parse cb) ([], []) (chunks r))
                     | OpenAICompatible \<Rightarrow> snd (read_loop (OpenAI_line parse cb) [] (chunks r)))
                    (case p of
                       OpenAI \<Rightarrow> trim (fst (read_loop (OpenAI_line parse cb) [] (chunks r)))
                     | Claude \<Rightarrow> trim (fullContent (fst (read_loop (Claude_line parse cb)
                         \<lparr>fullContent = [], fullThinking = [], currentBlockType = JNull\<rparr> (chunks r))))
                     | Gemini \<Rightarrow> trim (fst (read_loop (Gemini_line parse cb) [] (chunks r)))
                     | Ollama \<Rightarrow> trim (fst (read_loop (Ollama_line parse cb) [] (chunks r)))
                     | LlamaCpp \<Rightarrow> fst (LlamaCpp_final (fst (read_loop (LlamaCpp_line parse cb) ([], []) (chunks r))))
                     | OpenAICompatible \<Rightarrow> trim (fst (read_loop (OpenAI_line parse cb) [] (chunks r))))
                    (case p of
                       Claude \<Rightarrow> Some (fullThinking (fst (read_loop (Claude_line parse cb)
                         \<lparr>fullContent = [], fullThinking = [], currentBlockType = JNull\<rparr> (chunks r))))
                     | LlamaCpp \<Rightarrow> Some (snd (LlamaCpp_final (fst (read_loop (LlamaCpp_line parse cb) ([], []) (chunks r)))))
                     | _ \<Rightarrow> None)))"
  by (cases p; cases net)
     (simp_all add: translateStream_def misconfigured_def needs_key_def reads_error_body_def
        OpenAI_translateStream_def Claude_translateStream_def Gemini_translateStream_def
        Ollama_translateStream_def LlamaCpp_translateStream_def
        OpenAICompatible_translateStream_def Let_def)

lemma stream_events_delta:
  "list_all is_delta
     (case p of
        OpenAI \<Rightarrow> snd (read_loop (OpenAI_line parse cb) [] (chunks r))
      | Claude \<Rightarrow> snd (read_loop (Claude_line parse cb)
          \<lparr>fullContent = [], fullThinking = [], currentBlockType = JNull\<rparr> (chunks r))
      | Gemini \<Rightarrow> snd (read_loop (Gemini_line parse cb) [] (chunks r))
      | Ollama \<Rightarrow> snd (read_loop (Ollama_line parse cb) [] (chunks r))
      | LlamaCpp \<Rightarrow> snd (read_loop (LlamaCpp_line parse cb) ([], []) (chunks r))
      | OpenAICompatible \<Rightarrow> snd (read_loop (OpenAI_line parse cb) [] (chunks r)))"
  by (cases p) (simp_all add: line_deltas)


lemma translateStream_done:
  assumes "fst (translateStream p parse cfg cb net) = Inr s"
  shows "error_count (snd (translateStream p parse cfg cb net)) = 0"
    and "onDone cb \<Longrightarrow> done_count (snd (translateStream p parse cfg cb net)) = 1"
    and "onDone cb \<Longrightarrow> \<exists>t. last (snd (translateStream p parse cfg cb net)) = OnDone s t"
proof -
  have m: "\<not> misconfigured p cfg"
    using assms by (auto simp: translateStream_unfold)
  show "error_count (snd (translateStream p parse cfg cb net)) = 0"
    using assms m unfolding translateStream_unfold
    by (simp only: if_False try_block(2) [OF stream_events_delta])
  show "onDone cb \<Longrightarrow> done_count (snd (translateStream p parse cfg cb net)) = 1"
    using assms m unfolding translateStream_unfold
    by (simp only: if_False try_block(3) [OF stream_events_delta])
  show "onDone cb \<Longrightarrow> \<exists>t. last (snd (translateStream p parse cfg cb net)) = OnDone s t"
    using assms m unfolding translateStream_unfold
    by (simp only: if_False try_block(3) [OF stream_events_delta])
qed


lemma translateStream_failed_no_done:
  assumes "fst (translateStream p parse cfg cb net) = Inl e"
  shows "done_count (snd (translateStream p parse cfg cb net)) = 0"
proof (cases "misconfigured p cfg")
  case True
  then show ?thesis by (simp add: translateStream_unfold counts_Cons)
next
  case False
  with assms show ?thesis unfolding translateStream_unfold
    by (simp only: if_False try_block(5) [OF stream_events_delta])
qed

lemma translate_unfold:
  "translate p cfg net =
     (if misconfigured p cfg
      then (Inl (if p = OpenAICompatible then MissingBaseUrl else MissingApiKey p), [])
      else case net of
             Rejected x \<Rightarrow> (Inl x, [Fetch])
           | Resolved r \<Rightarrow>
               if \<not> ok r
               then (Inl (if reads_error_body p then error_of_body p r else HttpStatus p (status r)),
                     [Fetch])
               else (fst (translate p cfg net), [Fetch]))"
  by (cases p; cases net)
     (simp_all add: translate_def misconfigured_def needs_key_def reads_error_body_def
        OpenAI_translate_def Claude_translate_def Gemini_translate_def Ollama_translate_def
        LlamaCpp_translate_def OpenAICompatible_translate_def split: option.splits)

lemma failed_response:
  assumes "\<not> misconfigured p cfg" "\<not> ok r"
  shows "fst (translate p cfg (Resolved r)) =
           Inl (if reads_error_body p then error_of_body p r else HttpStatus p (status r))"
    and "fst (translateStream p parse cfg cb (Resolved r)) =
           Inl (if reads_error_body p then error_of_body p r else HttpStatus p (status r))"
  using assms
  by (simp_all add: translate_unfold translateStream_unfold catch_onError_def)

lemma error_of_body_cases:
  "json_body r = Some (JObj kvs) \<Longrightarrow> map_of kvs ''error'' = Some (JObj evs) \<Longrightarrow>
     map_of evs ''message'' = Some (JStr m) \<Longrightarrow> m \<noteq> [] \<Longrightarrow>
     error_of_body p r = BodyMessage m"
  "json_body r = None \<Longrightarrow> error_of_body p r = HttpStatus p (status r)"
  "json_body r = Some (JObj kvs) \<Longrightarrow> map_of kvs ''error'' = None \<Longrightarrow>
     error_of_body p r = HttpStatus p (status r)"
  by (simp_all add: error_of_body_def get_prop_def opt_prop_def prop_of_def nullish_def)

section \<open>Claims about errors\<close>




text \<open>
  C4, as stated, fails for the Ollama and llama.cpp adapters, which never read the body
  of a failed response: status 401 with the body \<open>{"error":{"message":"bad key"}}\<close>
  gives the generic error with the status number, not "bad key".
\<close>

theorem ollama_ignores_error_body_counterexample:
  "fst (translateStream Ollama example_parse example_config all_callbacks
          (Resolved (example_failure 401 (Some bad_key_body)))) = Inl (HttpStatus Ollama 401) \<and>
   fst (translate Ollama example_config
          (Resolved (example_failure 401 (Some bad_key_body)))) = Inl (HttpStatus Ollama 401)"
  by (simp add: translateStream_def translate_def Ollama_translateStream_def
      Ollama_translate_def example_failure_def ok_def catch_onError_def)

text \<open>
  C4, amended. For the OpenAI, Claude, Gemini and OpenAI compatible adapters, a response
  that is not 2xx fails the call (streaming or not) with the message of a structured error
  body, that is the non-empty string at \<open>error.message\<close>, and with the generic error
  that carries the status number when the body is not JSON or is an object without a
  member \<open>error\<close>. For the Ollama and llama.cpp adapters it always fails with the
  generic error that carries the status number.
\<close>

theorem http_error_message:
  assumes "\<not> misconfigured p cfg" and "\<not> ok r"
  shows "(reads_error_body p \<and> json_body r = Some (JObj kvs) \<and>
          map_of kvs ''error'' = Some (JObj evs) \<and> map_of evs ''message'' = Some (JStr m) \<and>
          m \<noteq> [] \<longrightarrow>
            fst (translate p cfg (Resolved r)) = Inl (BodyMessage m) \<and>
            fst (translateStream p parse cfg cb (Resolved r)) = Inl (BodyMessage m)) \<and>
         (reads_error_body p \<and>
          (json_body r = None \<or> (json_body r = Some (JObj kvs) \<and> map_of kvs ''error'' = None)) \<longrightarrow>
            fst (translate p cfg (Resolved r)) = Inl (HttpStatus p (status r)) \<and>
            fst (translateStream p parse cfg cb (Resolved r)) = Inl (HttpStatus p (status r))) \<and>
         (\<not> reads_error_body p \<longrightarrow>
            fst (translate p cfg (Resolved r)) = Inl (HttpStatus p (status r)) \<and>
            fst (translateStream p parse cfg cb (Resolved r)) = Inl (HttpStatus p (status r)))"
  using failed_response [OF assms]
  by (auto simp: error_of_body_cases)

theorem http_error_message_witness:
  "\<not> misconfigured OpenAI example_config \<and>
   \<not> ok (example_failure 401 (Some bad_key_body)) \<and>
   reads_error_body OpenAI \<and>
   fst (translate OpenAI example_config (Resolved (example_failure 401 (Some bad_key_body)))) =
     Inl (BodyMessage ''bad key'') \<and>
   fst (translateStream OpenAI example_parse example_config all_callbacks
          (Resolved (example_failure 401 (Some bad_key_body)))) = Inl (BodyMessage ''bad key'') \<and>
   \<not> ok (example_failure 502 None) \<and>
   fst (translateStream OpenAI example_parse example_config all_callbacks
          (Resolved (example_failure 502 None))) = Inl (HttpStatus OpenAI 502) \<and>
   \<not> misconfigured LlamaCpp example_config \<and> \<not> reads_error_body LlamaCpp \<and>
   fst (translateStream LlamaCpp example_parse example_config all_callbacks
          (Resolved (example_failure 401 (Some bad_key_body)))) = Inl (HttpStatus LlamaCpp 401)"
  using http_error_message [of OpenAI example_config "example_failure 401 (Some bad_key_body)"
          "[(''error'', JObj [(''message'', JStr ''bad key'')])]"
          "[(''message'', JStr ''bad key'')]" "''bad key''" example_parse all_callbacks]
        http_error_message [of OpenAI example_config "example_failure 502 None"
          "[]" "[]" "[]" example_parse all_callbacks]
        http_error_message [of LlamaCpp example_config "example_failure 401 (Some bad_key_body)"
          "[]" "[]" "[]" example_parse all_callbacks]
  by (simp add: misconfigured_def needs_key_def reads_error_body_def example_config_def
      unset_def example_failure_def ok_def bad_key_body_def)

text \<open>
  C5. For every provider that requires an API key (OpenAI, Claude, Gemini), \<open>translate\<close>
  and \<open>translateStream\<close> with a configuration whose API key is absent (or empty) fail
  with the missing-key error of that provider, whatever the network would do, and with no
  event at all: no request is sent and no callback invoked.
\<close>

theorem missing_key_fails_before_request:
  assumes "needs_key p" and "unset (apiKey cfg)"
  shows "translate p cfg net = (Inl (MissingApiKey p), []) \<and>
         translateStream p parse cfg cb net = (Inl (MissingApiKey p), [])"
  using assms
  by (auto simp: translate_unfold translateStream_unfold misconfigured_def needs_key_def)

theorem missing_key_fails_before_request_witness:
  "needs_key Gemini \<and> unset (apiKey no_key_config) \<and>
   translate Gemini no_key_config (Resolved (example_stream [])) =
     (Inl (MissingApiKey Gemini), []) \<and>
   translateStream Gemini example_parse no_key_config all_callbacks (Resolved (example_stream [])) =
     (Inl (MissingApiKey Gemini), [])"
  using missing_key_fails_before_request [of Gemini no_key_config "Resolved (example_stream [])"
          example_parse all_callbacks]
  by (simp add: needs_key_def no_key_config_def unset_def)

section \<open>Claims about the sentinel\<close>

text \<open>
  C6, as stated, fails where it says that no content callback follows the sentinel: the
  loop skips the sentinel line with \<open>continue\<close> and goes on reading, so a data line
  after it is delivered.
\<close>

theorem content_after_sentinel_counterexample:
  \<open>translateStream OpenAI example_parse example_config all_callbacks
      (Resolved (example_stream
         [''data: [DONE]'', ''data: {"choices":[{"delta":{"content":"x"}}]}''])) =
    (Inr ''x'', [Fetch, OnContent ''x'', OnDone ''x'' None])\<close>
  by (simp add: translateStream_def OpenAI_translateStream_def example_config_def unset_def
      example_stream_def ok_def catch_onError_def finish_def OpenAI_line_def example_parse_def
      content_frame_def get_prop_def opt_prop_def opt_index0_def elem0_def prop_of_def
      nullish_def emit_def all_callbacks_def trim_def is_ws_def Let_def)

text \<open>
  C6, amended. In every event-stream decoding loop, a data line whose payload is the
  sentinel \<open>[DONE]\<close> produces no callback and no error and leaves the accumulated
  state as it is (the Gemini loop has no test for the sentinel, and skips it because it
  is not JSON). The loop then goes on with the following lines. When a stream has been
  read to its end, \<open>onDone\<close> is invoked exactly once, as the last event; when the call
  fails, it is not invoked.
\<close>

theorem sentinel_skipped_done_once:
  "OpenAI_line parse cb s ''data: [DONE]'' = (s, []) \<and>
   Claude_line parse cb c ''data: [DONE]'' = (c, []) \<and>
   LlamaCpp_line parse cb l ''data: [DONE]'' = (l, []) \<and>
   (parse ''[DONE]'' = None \<longrightarrow> Gemini_line parse cb s ''data: [DONE]'' = (s, [])) \<and>
   (fst (translateStream p parse cfg cb net) = Inr v \<and> onDone cb \<longrightarrow>
      done_count (snd (translateStream p parse cfg cb net)) = 1 \<and>
      (\<exists>t. last (snd (translateStream p parse cfg cb net)) = OnDone v t)) \<and>
   (fst (translateStream p parse cfg cb net) = Inl e \<longrightarrow>
      done_count (snd (translateStream p parse cfg cb net)) = 0)"
  using translateStream_done(2,3) [of p parse cfg cb net v]
    translateStream_failed_no_done [of p parse cfg cb net e]
  by (simp add: OpenAI_line_def Claude_line_def LlamaCpp_line_def Gemini_line_def)

theorem sentinel_skipped_done_once_witness:
  "example_parse ''[DONE]'' = None \<and>
   Gemini_line example_parse all_callbacks ''abc'' ''data: [DONE]'' = (''abc'', []) \<and>
   fst (translateStream OpenAI example_parse example_config all_callbacks
          (Resolved (example_stream [''data: [DONE]'']))) = Inr [] \<and>
   onDone all_callbacks \<and>
   done_count (snd (translateStream OpenAI example_parse example_config all_callbacks
          (Resolved (example_stream [''data: [DONE]''])))) = 1 \<and>
   fst (translateStream OpenAI example_parse example_config all_callbacks
          (Rejected (Failure ''offline''))) = Inl (Failure ''offline'') \<and>
   done_count (snd (translateStream OpenAI example_parse example_config all_callbacks
          (Rejected (Failure ''offline'')))) = 0"
  using sentinel_skipped_done_once [of example_parse all_callbacks "''abc''" _ _ OpenAI
          example_config "Resolved (example_stream [''data: [DONE]''])" "[]"]
        sentinel_skipped_done_once [of example_parse all_callbacks "''abc''" _ _ OpenAI
          example_config "Rejected (Failure ''offline'')" _ "Failure ''offline''"]
  by (simp add: translateStream_def OpenAI_translateStream_def example_config_def unset_def
      example_stream_def ok_def catch_onError_def finish_def OpenAI_line_def example_parse_def
      emit_def all_callbacks_def trim_def Let_def)

section \<open>Append-only callback arguments\<close>

lemma chain_join:
  assumes "sorted_wrt prefix (a # xs @ [b])" and "sorted_wrt prefix (b # ys @ [c])"
  shows "sorted_wrt prefix (a # (xs @ ys) @ [c])"
proof -
  have 1: "\<forall>x \<in> set (a # xs). prefix x b"
    using assms(1) by (auto simp: sorted_wrt_append)
  have 2: "\<forall>y \<in> set (ys @ [c]). prefix b y"
    using assms(2) by auto
  have 3: "\<forall>x \<in> set (a # xs). \<forall>y \<in> set (ys @ [c]). prefix x y"
    using 1 2 by (meson prefix_order.trans)
  have 4: "sorted_wrt prefix (a # xs)"
    using assms(1) by (auto simp: sorted_wrt_append)
  have 5: "sorted_wrt prefix (ys @ [c])"
    using assms(2) by auto
  have "sorted_wrt prefix ((a # xs) @ (ys @ [c]))"
    using 3 4 5 unfolding sorted_wrt_append by blast
  then show ?thesis by simp
qed

lemma run_lines_chain:
  fixes acc :: "'s \<Rightarrow> string" and args :: "event list \<Rightarrow> string list"
  assumes app: "\<And>a b. args (a @ b) = args a @ args b" and nil: "args [] = []"
    and step: "\<And>st l. G (fst (step st l)) \<Longrightarrow>
                 G st \<and> sorted_wrt prefix (acc st # args (snd (step st l)) @ [acc (fst (step st l))])"
    and fin: "G (fst (run_lines step st ls))"
  shows "G st \<and>
         sorted_wrt prefix
           (acc st # args (snd (run_lines step st ls)) @ [acc (fst (run_lines step st ls))])"
  using fin
proof (induction ls arbitrary: st)
  case Nil
  then show ?case by (simp add: nil)
next
  case (Cons l ls)
  let ?s1 = "fst (step st l)"
  from Cons.prems have g2: "G (fst (run_lines step ?s1 ls))"
    by (simp add: Let_def)
  from Cons.IH [OF g2] have g1: "G ?s1"
    and c2: "sorted_wrt prefix
               (acc ?s1 # args (snd (run_lines step ?s1 ls)) @ [acc (fst (run_lines step ?s1 ls))])"
    by simp_all
  from step [OF g1] have g0: "G st"
    and c1: "sorted_wrt prefix (acc st # args (snd (step st l)) @ [acc ?s1])"
    by simp_all
  from chain_join [OF c1 c2] g0 show ?case
    by (simp add: Let_def app)
qed

lemma read_loop_chain:
  fixes acc :: "'s \<Rightarrow> string" and args :: "event list \<Rightarrow> string list"
  assumes app: "\<And>a b. args (a @ b) = args a @ args b" and nil: "args [] = []"
    and step: "\<And>st l. G (fst (step st l)) \<Longrightarrow>
                 G st \<and> sorted_wrt prefix (acc st # args (snd (step st l)) @ [acc (fst (step st l))])"
    and fin: "G (fst (read_loop step st cs))"
  shows "G st \<and>
         sorted_wrt prefix
           (acc st # args (snd (read_loop step st cs)) @ [acc (fst (read_loop step st cs))])"
  using fin
proof (induction cs arbitrary: st)
  case Nil
  then show ?case by (simp add: nil)
next
  case (Cons ch cs)
  let ?s1 = "fst (run_lines step st (split_nl ch))"
  from Cons.prems have g2: "G (fst (read_loop step ?s1 cs))"
    by (simp add: Let_def)
  from Cons.IH [OF g2] have g1: "G ?s1"
    and c2: "sorted_wrt prefix
               (acc ?s1 # args (snd (read_loop step ?s1 cs)) @ [acc (fst (read_loop step ?s1 cs))])"
    by simp_all
  from run_lines_chain [of args G step acc, OF app nil step g1] have g0: "G st"
    and c1: "sorted_wrt prefix
               (acc st # args (snd (run_lines step st (split_nl ch))) @ [acc ?s1])"
    by simp_all
  from chain_join [OF c1 c2] g0 show ?case
    by (simp add: Let_def app)
qed

lemma read_loop_append_only:
  fixes acc :: "'s \<Rightarrow> string" and args :: "event list \<Rightarrow> string list"
  assumes app: "\<And>a b. args (a @ b) = args a @ args b" and nil: "args [] = []"
    and step: "\<And>st l. G (fst (step st l)) \<Longrightarrow>
                 G st \<and> sorted_wrt prefix (acc st # args (snd (step st l)) @ [acc (fst (step st l))])"
    and fin: "G (fst (read_loop step st cs))"
  shows "append_only (args (snd (read_loop step st cs)))"
  using read_loop_chain [of args G step acc, OF app nil step fin]
  by (auto simp: append_only_def sorted_wrt_append)


lemma args_simps:
  "content_args (a @ b) = content_args a @ content_args b"
  "reasoning_args (a @ b) = reasoning_args a @ reasoning_args b"
  "content_args [] = []" "reasoning_args [] = []"
  "content_args (Fetch # a) = content_args a"
  "reasoning_args (Fetch # a) = reasoning_args a"
  by (simp_all add: content_args_def reasoning_args_def)

lemma args_single:
  "content_args [OnContent s] = [s]" "content_args [OnReasoning s] = []"
  "content_args [Fetch] = []" "content_args [OnDone s t] = []" "content_args [OnError e] = []"
  "reasoning_args [OnContent s] = []" "reasoning_args [OnReasoning s] = [s]"
  "reasoning_args [Fetch] = []" "reasoning_args [OnDone s t] = []" "reasoning_args [OnError e] = []"
  by (simp_all add: content_args_def reasoning_args_def)

lemma args_emit:
  "content_args (emit b (OnContent s)) = (if b then [s] else [])"
  "content_args (emit b (OnReasoning s)) = []"
  "content_args (emit b (OnDone s t)) = []"
  "content_args (emit b (OnError e)) = []"
  "reasoning_args (emit b (OnContent s)) = []"
  "reasoning_args (emit b (OnReasoning s)) = (if b then [s] else [])"
  "reasoning_args (emit b (OnDone s t)) = []"
  "reasoning_args (emit b (OnError e)) = []"
  by (simp_all add: emit_def args_single args_simps(3,4))

lemma OpenAI_line_chain:
  "sorted_wrt prefix (st # content_args (snd (OpenAI_line parse cb st l))
                        @ [fst (OpenAI_line parse cb st l)])"
  "sorted_wrt prefix ([] # reasoning_args (snd (OpenAI_line parse cb st l)) @ [[]])"
  by (simp_all add: OpenAI_line_def Let_def args_emit args_simps(3,4)
      split: option.splits sum.splits)

lemma Gemini_line_chain:
  "sorted_wrt prefix (st # content_args (snd (Gemini_line parse cb st l))
                        @ [fst (Gemini_line parse cb st l)])"
  "sorted_wrt prefix ([] # reasoning_args (snd (Gemini_line parse cb st l)) @ [[]])"
  by (simp_all add: Gemini_line_def Let_def args_emit args_simps(3,4)
      split: option.splits sum.splits)

lemma Ollama_line_chain:
  "sorted_wrt prefix (st # content_args (snd (Ollama_line parse cb st l))
                        @ [fst (Ollama_line parse cb st l)])"
  "sorted_wrt prefix ([] # reasoning_args (snd (Ollama_line parse cb st l)) @ [[]])"
  by (simp_all add: Ollama_line_def Let_def args_emit args_simps(3,4)
      split: option.splits sum.splits)

lemma Claude_line_chain:
  "sorted_wrt prefix (fullContent st # content_args (snd (Claude_line parse cb st l))
                        @ [fullContent (fst (Claude_line parse cb st l))])"
  "sorted_wrt prefix (fullThinking st # reasoning_args (snd (Claude_line parse cb st l))
                        @ [fullThinking (fst (Claude_line parse cb st l))])"
  by (simp_all add: Claude_line_def Claude_delta_def Let_def args_emit args_simps(1-4)
      split: option.splits sum.splits)

lemma no_think_prefix:
  assumes "indexOf ''<think>'' (s @ d) = None"
  shows "indexOf ''<think>'' s = None"
proof (rule ccontr)
  assume "indexOf ''<think>'' s \<noteq> None"
  then obtain a b where "s = a @ ''<think>'' @ b"
    using find_first_None_iff [of "''<think>''" s] by (auto simp: indexOf_def)
  then have "s @ d = a @ ''<think>'' @ (b @ d)" by simp
  then have "indexOf ''<think>'' (s @ d) \<noteq> None"
    using find_first_None_iff [of "''<think>''" "s @ d"] unfolding indexOf_def by blast
  with assms show False by simp
qed

lemma LlamaCpp_line_fullText:
  "\<exists>d. fst (fst (LlamaCpp_line parse cb st l)) = fst st @ d"
  by (simp add: LlamaCpp_line_def Let_def split: option.splits sum.splits)

lemma LlamaCpp_line_chain:
  assumes "indexOf ''<think>'' (fst (fst (LlamaCpp_line parse cb st l))) = None"
  shows "indexOf ''<think>'' (fst st) = None"
    and "sorted_wrt prefix (fst st # content_args (snd (LlamaCpp_line parse cb st l))
                              @ [fst (fst (LlamaCpp_line parse cb st l))])"
    and "sorted_wrt prefix (snd st # reasoning_args (snd (LlamaCpp_line parse cb st l))
                              @ [snd (fst (LlamaCpp_line parse cb st l))])"
proof -
  show "indexOf ''<think>'' (fst st) = None"
    using assms LlamaCpp_line_fullText [of parse cb st l] no_think_prefix by metis
  show "sorted_wrt prefix (fst st # content_args (snd (LlamaCpp_line parse cb st l))
                              @ [fst (fst (LlamaCpp_line parse cb st l))])"
    using assms
    by (auto simp: LlamaCpp_line_def LlamaCpp_content_def Let_def args_emit args_simps(1-4)
        split: option.splits sum.splits if_splits)
  show "sorted_wrt prefix (snd st # reasoning_args (snd (LlamaCpp_line parse cb st l))
                              @ [snd (fst (LlamaCpp_line parse cb st l))])"
    using assms
    by (auto simp: LlamaCpp_line_def LlamaCpp_content_def Let_def args_emit args_simps(1-4)
        split: option.splits sum.splits if_splits)
qed

lemma try_block_args:
  "content_args (snd (catch_onError cb
     (case net of
        Rejected x \<Rightarrow> (Inl x, [Fetch])
      | Resolved r \<Rightarrow> if \<not> ok r then (Inl (f r), [Fetch]) else finish cb r (evs r) (v r) (t r)))) =
   (case net of Rejected x \<Rightarrow> [] | Resolved r \<Rightarrow> if ok r then content_args (evs r) else [])"
  "reasoning_args (snd (catch_onError cb
     (case net of
        Rejected x \<Rightarrow> (Inl x, [Fetch])
      | Resolved r \<Rightarrow> if \<not> ok r then (Inl (f r), [Fetch]) else finish cb r (evs r) (v r) (t r)))) =
   (case net of Rejected x \<Rightarrow> [] | Resolved r \<Rightarrow> if ok r then reasoning_args (evs r) else [])"
  by (auto simp: catch_onError_def finish_def args_emit args_simps args_single
      split: fetch_result.splits option.splits)

lemma read_loop_append_only_plain:
  fixes acc :: "'s \<Rightarrow> string" and args :: "event list \<Rightarrow> string list"
  assumes app: "\<And>a b. args (a @ b) = args a @ args b" and nil: "args [] = []"
    and step: "\<And>st l. sorted_wrt prefix (acc st # args (snd (step st l)) @ [acc (fst (step st l))])"
  shows "append_only (args (snd (read_loop step st cs)))"
proof (rule read_loop_append_only [where G = "\<lambda>_. True" and acc = acc])
  show "\<And>a b. args (a @ b) = args a @ args b" by (rule app)
  show "args [] = []" by (rule nil)
  show "\<And>st l. True \<Longrightarrow>
          True \<and> sorted_wrt prefix (acc st # args (snd (step st l)) @ [acc (fst (step st l))])"
    using step by blast
  show True ..
qed

lemma stream_append_only:
  "append_only (content_args (snd (read_loop (OpenAI_line parse cb) st cs)))"
  "append_only (reasoning_args (snd (read_loop (OpenAI_line parse cb) st cs)))"
  "append_only (content_args (snd (read_loop (Gemini_line parse cb) st cs)))"
  "append_only (reasoning_args (snd (read_loop (Gemini_line parse cb) st cs)))"
  "append_only (content_args (snd (read_loop (Ollama_line parse cb) st cs)))"
  "append_only (reasoning_args (snd (read_loop (Ollama_line parse cb) st cs)))"
  "append_only (content_args (snd (read_loop (Claude_line parse cb) ct cs)))"
  "append_only (reasoning_args (snd (read_loop (Claude_line parse cb) ct cs)))"
proof -
  show "append_only (content_args (snd (read_loop (OpenAI_line parse cb) st cs)))"
    by (rule read_loop_append_only_plain [where acc = "\<lambda>s. s"])
       (rule args_simps OpenAI_line_chain)+
  show "append_only (reasoning_args (snd (read_loop (OpenAI_line parse cb) st cs)))"
    by (rule read_loop_append_only_plain [where acc = "\<lambda>s. []"])
       (rule args_simps OpenAI_line_chain)+
  show "append_only (content_args (snd (read_loop (Gemini_line parse cb) st cs)))"
    by (rule read_loop_append_only_plain [where acc = "\<lambda>s. s"])
       (rule args_simps Gemini_line_chain)+
  show "append_only (reasoning_args (snd (read_loop (Gemini_line parse cb) st cs)))"
    by (rule read_loop_append_only_plain [where acc = "\<lambda>s. []"])
       (rule args_simps Gemini_line_chain)+
  show "append_only (content_args (snd (read_loop (Ollama_line parse cb) st cs)))"
    by (rule read_loop_append_only_plain [where acc = "\<lambda>s. s"])
       (rule args_simps Ollama_line_chain)+
  show "append_only (reasoning_args (snd (read_loop (Ollama_line parse cb) st cs)))"
    by (rule read_loop_append_only_plain [where acc = "\<lambda>s. []"])
       (rule args_simps Ollama_line_chain)+
  show "append_only (content_args (snd (read_loop (Claude_line parse cb) ct cs)))"
    by (rule read_loop_append_only_plain [where acc = fullContent])
       (rule args_simps Claude_line_chain)+
  show "append_only (reasoning_args (snd (read_loop (Claude_line parse cb) ct cs)))"
    by (rule read_loop_append_only_plain [where acc = fullThinking])
       (rule args_simps Claude_line_chain)+
qed

lemma LlamaCpp_append_only:
  assumes "indexOf ''<think>'' (fst (fst (read_loop (LlamaCpp_line parse cb) st cs))) = None"
  shows "append_only (content_args (snd (read_loop (LlamaCpp_line parse cb) st cs)))"
    and "append_only (reasoning_args (snd (read_loop (LlamaCpp_line parse cb) st cs)))"
proof -
  show "append_only (content_args (snd (read_loop (LlamaCpp_line parse cb) st cs)))"
  proof (rule read_loop_append_only
          [where G = "\<lambda>s. indexOf ''<think>'' (fst s) = None" and acc = fst])
    show "\<And>a b. content_args (a @ b) = content_args a @ content_args b" by (rule args_simps)
    show "content_args [] = []" by (rule args_simps)
    show "indexOf ''<think>'' (fst (fst (read_loop (LlamaCpp_line parse cb) st cs))) = None"
      by (rule assms)
    show "\<And>st l. indexOf ''<think>'' (fst (fst (LlamaCpp_line parse cb st l))) = None \<Longrightarrow>
            indexOf ''<think>'' (fst st) = None \<and>
            sorted_wrt prefix (fst st # content_args (snd (LlamaCpp_line parse cb st l))
                                 @ [fst (fst (LlamaCpp_line parse cb st l))])"
      using LlamaCpp_line_chain(1,2) by blast
  qed
  show "append_only (reasoning_args (snd (read_loop (LlamaCpp_line parse cb) st cs)))"
  proof (rule read_loop_append_only
          [where G = "\<lambda>s. indexOf ''<think>'' (fst s) = None" and acc = snd])
    show "\<And>a b. reasoning_args (a @ b) = reasoning_args a @ reasoning_args b"
      by (rule args_simps)
    show "reasoning_args [] = []" by (rule args_simps)
    show "indexOf ''<think>'' (fst (fst (read_loop (LlamaCpp_line parse cb) st cs))) = None"
      by (rule assms)
    show "\<And>st l. indexOf ''<think>'' (fst (fst (LlamaCpp_line parse cb st l))) = None \<Longrightarrow>
            indexOf ''<think>'' (fst st) = None \<and>
            sorted_wrt prefix (snd st # reasoning_args (snd (LlamaCpp_line parse cb st l))
                                 @ [snd (fst (LlamaCpp_line parse cb st l))])"
      using LlamaCpp_line_chain(1,3) by blast
  qed
qed


lemma translateStream_append_only:
  assumes "args = content_args \<or> args = reasoning_args"
    and "p = LlamaCpp \<longrightarrow>
           (\<forall>r. net = Resolved r \<longrightarrow> indexOf ''<think>'' (LlamaCpp_fullText parse cb r) = None)"
  shows "append_only (args (snd (translateStream p parse cfg cb net)))"
proof (cases "misconfigured p cfg")
  case True
  then show ?thesis
    using assms(1) by (auto simp: translateStream_unfold args_simps append_only_def)
next
  case False
  have "append_only (args (snd (catch_onError cb
     (case net of
        Rejected x \<Rightarrow> (Inl x, [Fetch])
      | Resolved r \<Rightarrow> if \<not> ok r then (Inl (f r), [Fetch])
          else finish cb r (evs r) (v r) (t r)))))"
    if "\<And>r. net = Resolved r \<Longrightarrow> append_only (args (evs r))" for f evs v t
  proof -
    consider "args = content_args" | "args = reasoning_args"
      using assms(1) by blast
    then show ?thesis
    proof cases
      case 1
      show ?thesis
        unfolding 1 try_block_args using that [unfolded 1]
        by (simp add: append_only_def split: fetch_result.splits)
    next
      case 2
      show ?thesis
        unfolding 2 try_block_args using that [unfolded 2]
        by (simp add: append_only_def split: fetch_result.splits)
    qed
  qed
  moreover have "append_only (args
     (case p of
        OpenAI \<Rightarrow> snd (read_loop (OpenAI_line parse cb) [] (chunks r))
      | Claude \<Rightarrow> snd (read_loop (Claude_line parse cb)
          \<lparr>fullContent = [], fullThinking = [], currentBlockType = JNull\<rparr> (chunks r))
      | Gemini \<Rightarrow> snd (read_loop (Gemini_line parse cb) [] (chunks r))
      | Ollama \<Rightarrow> snd (read_loop (Ollama_line parse cb) [] (chunks r))
      | LlamaCpp \<Rightarrow> snd (read_loop (LlamaCpp_line parse cb) ([], []) (chunks r))
      | OpenAICompatible \<Rightarrow> snd (read_loop (OpenAI_line parse cb) [] (chunks r))))"
    if "net = Resolved r" for r
    using assms that LlamaCpp_append_only [of parse cb "([], [])" "chunks r"]
    by (cases p) (auto simp: stream_append_only LlamaCpp_fullText_def)
  ultimately show ?thesis
    using False unfolding translateStream_unfold by simp
qed

text \<open>
  C1, as stated, fails for the llama.cpp adapter: every \<open>onContent\<close> argument is
  computed anew from the accumulated text, and once that text holds \<open><think>\<close> the
  text before the tag is trimmed. The deltas \<open>"Hello "\<close> and \<open>"<think>"\<close> deliver
  \<open>"Hello "\<close> and then the shorter \<open>"Hello"\<close>.
\<close>

theorem llamacpp_retracts_counterexample:
  \<open>content_args (snd (translateStream LlamaCpp example_parse example_config all_callbacks
      (Resolved (example_stream
         [''data: {"choices":[{"delta":{"content":"Hello "}}]}'',
          ''data: {"choices":[{"delta":{"content":"<think>"}}]}''])))) = [''Hello '', ''Hello''] \<and>
    \<not> append_only [''Hello '', ''Hello'']\<close>
  by code_simp

text \<open>
  C1, amended. For the OpenAI, Claude, Gemini, Ollama and OpenAI compatible adapters, the
  strings passed to \<open>onContent\<close> during one streamed response are append-only: each is
  a prefix-extension of every earlier one; likewise for \<open>onReasoning\<close>. For the
  llama.cpp adapter this holds as long as the text accumulated from the content deltas
  holds no \<open><think>\<close> tag.
\<close>

theorem streamed_arguments_append_only:
  "(p \<noteq> LlamaCpp \<longrightarrow>
      append_only (content_args (snd (translateStream p parse cfg cb net))) \<and>
      append_only (reasoning_args (snd (translateStream p parse cfg cb net)))) \<and>
   (indexOf ''<think>'' (LlamaCpp_fullText parse cb r) = None \<longrightarrow>
      append_only (content_args (snd (translateStream LlamaCpp parse cfg cb (Resolved r)))) \<and>
      append_only (reasoning_args (snd (translateStream LlamaCpp parse cfg cb (Resolved r)))))"
  using translateStream_append_only [of content_args p net parse cb cfg]
    translateStream_append_only [of reasoning_args p net parse cb cfg]
    translateStream_append_only [of content_args LlamaCpp "Resolved r" parse cb cfg]
    translateStream_append_only [of reasoning_args LlamaCpp "Resolved r" parse cb cfg]
  by auto

theorem streamed_arguments_append_only_witness:
  \<open>Claude \<noteq> LlamaCpp \<and>
    indexOf ''<think>'' (LlamaCpp_fullText example_parse all_callbacks
      (example_stream [''data: {"choices":[{"delta":{"content":"Hello "}}]}'',
                       ''data: {"choices":[{"delta":{"content":"x"}}]}''])) = None \<and>
    append_only (content_args (snd (translateStream LlamaCpp example_parse example_config
      all_callbacks
      (Resolved (example_stream [''data: {"choices":[{"delta":{"content":"Hello "}}]}'',
                                 ''data: {"choices":[{"delta":{"content":"x"}}]}''])))))\<close>
proof -
  have h: \<open>indexOf ''<think>'' (LlamaCpp_fullText example_parse all_callbacks
      (example_stream [''data: {"choices":[{"delta":{"content":"Hello "}}]}'',
                       ''data: {"choices":[{"delta":{"content":"x"}}]}''])) = None\<close>
    by code_simp
  show ?thesis
    using h streamed_arguments_append_only [of Claude example_parse example_config all_callbacks
        \<open>Resolved (example_stream [])\<close>
        \<open>example_stream [''data: {"choices":[{"delta":{"content":"Hello "}}]}'',
                         ''data: {"choices":[{"delta":{"content":"x"}}]}'']\<close>]
    by simp
qed

section \<open>Facts about replacement\<close>














section \<open>Claims about prompt construction\<close>




section \<open>Facts about tag markers\<close>

lemma starts_with_ci:
  "starts_with False p s \<Longrightarrow> starts_with True p s"
  by (induction "False" p s rule: starts_with.induct) auto

lemma starts_with_extend:
  "starts_with ci p s \<Longrightarrow> starts_with ci p (s @ t)"
  by (induction ci p s rule: starts_with.induct) auto

lemma find_first_Cons_None:
  "find_first ci p (c # cs) = None \<longleftrightarrow> \<not> starts_with ci p (c # cs) \<and> find_first ci p cs = None"
  by simp

lemma find_first_drop:
  "find_first ci p s = None \<Longrightarrow> find_first ci p (drop n s) = None"
proof (induction s arbitrary: n)
  case Nil
  then show ?case by simp
next
  case (Cons c cs)
  then show ?case by (cases n) (simp_all split: if_splits)
qed

lemma find_first_prefix:
  "find_first ci p (a @ b) = None \<Longrightarrow> find_first ci p a = None"
proof (induction a)
  case Nil
  then show ?case by (cases b) (auto split: if_splits)
next
  case (Cons c a)
  then show ?case
    using starts_with_extend [of ci p "c # a" b] by (auto split: if_splits)
qed

lemma find_first_ci_cs:
  "find_first True p s = None \<Longrightarrow> find_first False p s = None"
  by (induction s) (auto split: if_splits dest: starts_with_ci)

lemma lastIndexOf_None:
  "find_first False p s = None \<Longrightarrow> lastIndexOf p s = None"
  by (induction s) (auto split: if_splits)


lemma scan_pairs_unclosed:
  "find_first True (close_tag name) s = None \<Longrightarrow> scan_pairs name s = (s, [])"
proof (induction s)
  case Nil
  then show ?case by simp
next
  case (Cons c cs)
  then have cs: "scan_pairs name cs = (cs, [])"
    by (simp split: if_splits)
  have "find_first True (close_tag name) (drop (length (open_tag name)) (c # cs)) = None"
    using Cons.prems by (rule find_first_drop)
  with cs show ?case by (simp add: add_char_def)
qed

lemma strip_tags_none:
  "find_first ci (open_tag name) s = None \<Longrightarrow> find_first ci (close_tag name) s = None \<Longrightarrow>
     strip_tags ci name s = s"
  by (induction s) (auto split: if_splits)

lemma trim_parts:
  "\<exists>a b. s = a @ trim s @ b"
proof -
  let ?u = "dropWhile is_ws s"
  have 1: "s = takeWhile is_ws s @ ?u" by simp
  have "rev ?u = takeWhile is_ws (rev ?u) @ dropWhile is_ws (rev ?u)" by simp
  then have "?u = rev (dropWhile is_ws (rev ?u)) @ rev (takeWhile is_ws (rev ?u))"
    by (metis rev_append rev_rev_ident)
  then have "?u = trim s @ rev (takeWhile is_ws (rev ?u))"
    by (simp add: trim_def)
  with 1 show ?thesis by metis
qed

lemma find_first_trim:
  assumes "find_first ci p s = None"
  shows "find_first ci p (trim s) = None"
proof -
  obtain a b where ab: "s = a @ trim s @ b"
    using trim_parts by blast
  have "drop (length a) s = trim s @ b"
    by (subst ab) simp
  with find_first_drop [OF assms, of "length a"] have "find_first ci p (trim s @ b) = None"
    by simp
  then show ?thesis by (rule find_first_prefix)
qed

lemma trim_trim:
  "trim (trim s) = trim s"
proof -
  let ?u = "dropWhile is_ws s"
  let ?z = "dropWhile is_ws (rev ?u)"
  have y: "trim s = rev ?z" by (simp add: trim_def)
  have rear: "dropWhile is_ws (rev (rev ?z)) = ?z" by simp
  have front: "dropWhile is_ws (rev ?z) = rev ?z"
  proof (cases "?z = []")
    case True
    show ?thesis unfolding True by simp
  next
    case False
    have "rev ?u = takeWhile is_ws (rev ?u) @ ?z" by simp
    then have u: "?u = rev ?z @ rev (takeWhile is_ws (rev ?u))"
      by (metis rev_append rev_rev_ident)
    from False have nz: "rev ?z \<noteq> []" by simp
    with u have "?u \<noteq> []" by (metis append_is_Nil_conv)
    then have "\<not> is_ws (hd ?u)" by (rule hd_dropWhile)
    moreover have "hd ?u = hd (rev ?z)"
      using u nz by (metis hd_append2)
    ultimately have "\<not> is_ws (hd (rev ?z))" by simp
    with nz show ?thesis by (cases "rev ?z") simp_all
  qed
  show ?thesis
    unfolding y
    by (simp only: trim_def [of "rev ?z"] front rear)
qed

lemma no_markers_trim:
  "no_markers s \<Longrightarrow> no_markers (trim s)"
  by (simp add: no_markers_def find_first_trim)

lemma tags:
  "open_tag ''think'' = ''<think>''" "close_tag ''think'' = ''</think>''"
  "open_tag ''thinking'' = ''<thinking>''" "close_tag ''thinking'' = ''</thinking>''"
  "open_tag ''reasoning'' = ''<reasoning>''" "close_tag ''reasoning'' = ''</reasoning>''"
  by (simp_all add: open_tag_def close_tag_def)

lemma other_kinds_none:
  assumes "no_markers s"
  shows "scan_pairs ''thinking'' s = (s, [])" "scan_pairs ''reasoning'' s = (s, [])"
    "strip_tags True ''think'' s = s"
    "strip_tags True ''thinking'' s = s" "strip_tags True ''reasoning'' s = s"
  using assms
  by (simp_all add: no_markers_def scan_pairs_unclosed strip_tags_none tags)

lemma separateThinking_no_markers:
  assumes "no_markers s"
  shows "separateThinking s = \<lparr>thinking = [], visible = trim s\<rparr>"
proof -
  have scan: "scan_pairs ''think'' s = (s, [])"
    using assms by (simp add: no_markers_def scan_pairs_unclosed tags)
  have last: "lastIndexOf ''<think>'' s = None"
    using assms by (simp add: no_markers_def lastIndexOf_None find_first_ci_cs)
  have t: "trim [] = []" by (simp add: trim_def)
  show ?thesis
    by (simp add: separateThinking_def Let_def scan last
        other_kinds_none [OF assms] other_kinds_none [OF no_markers_trim [OF assms]]
        trim_trim t)
qed




section \<open>Claims about the thinking extractor\<close>




text \<open>
  C7. The thinking extractor is idempotent, and no tag marker of any kind survives into
  the visible output of a single run. The code attempts this with its passes that clean
  up orphan tags, and misses it: each pass removes the markers it finds in one sweep, and
  the text on both sides of a removed marker can join into a new marker, which stays. On
  the input \<open></thi</think>nk>\<close> the visible output of a run is the marker
  \<open></think>\<close>, and a second run on that output returns the empty string, not the
  output unchanged.
\<close>

theorem orphan_marker_survives:
  "separateThinking ''</thi</think>nk>'' = \<lparr>thinking = [], visible = ''</think>''\<rparr> \<and>
   \<not> no_markers (visible (separateThinking ''</thi</think>nk>'')) \<and>
   separateThinking (visible (separateThinking ''</thi</think>nk>'')) =
     \<lparr>thinking = [], visible = []\<rparr>"
  by code_simp

end
